theory Spec2Isabelle
  imports Complex_Main
begin

section \<open>Numbers and arrays\<close>

text \<open>
  The mixture models of \<^verbatim>\<open>models/pyMix.py\<close> compute on NumPy arrays of double
  precision numbers. A number is modelled as a real, or one of the three special values
  that NumPy arithmetic produces instead of raising: plus and minus infinity and
  not-a-number. Arithmetic on finite values is exact (rounding, overflow and the sign
  of zero are not represented); the special values follow IEEE 754, so that a division
  by zero, a logarithm of zero or a difference of infinities is a value of the model
  as it is a value of the program.
\<close>

datatype npfloat = Fin real | PInf | NInf | NaN

fun fsgn :: "npfloat \<Rightarrow> real" where
  "fsgn (Fin a) = sgn a"
| "fsgn PInf = 1"
| "fsgn NInf = - 1"
| "fsgn NaN = 0"

instantiation npfloat :: "{zero, one, plus, uminus, minus, times, inverse, abs}"
begin

definition zero_npfloat :: npfloat where
  "zero_npfloat = Fin 0"

definition one_npfloat :: npfloat where
  "one_npfloat = Fin 1"

fun plus_npfloat :: "npfloat \<Rightarrow> npfloat \<Rightarrow> npfloat" where
  "plus_npfloat (Fin a) (Fin b) = Fin (a + b)"
| "plus_npfloat NaN y = NaN"
| "plus_npfloat x NaN = NaN"
| "plus_npfloat PInf NInf = NaN"
| "plus_npfloat NInf PInf = NaN"
| "plus_npfloat PInf y = PInf"
| "plus_npfloat x PInf = PInf"
| "plus_npfloat NInf y = NInf"
| "plus_npfloat x NInf = NInf"

fun uminus_npfloat :: "npfloat \<Rightarrow> npfloat" where
  "uminus_npfloat (Fin a) = Fin (- a)"
| "uminus_npfloat PInf = NInf"
| "uminus_npfloat NInf = PInf"
| "uminus_npfloat NaN = NaN"

definition minus_npfloat :: "npfloat \<Rightarrow> npfloat \<Rightarrow> npfloat" where
  "minus_npfloat x y = x + (- y)"

fun times_npfloat :: "npfloat \<Rightarrow> npfloat \<Rightarrow> npfloat" where
  "times_npfloat (Fin a) (Fin b) = Fin (a * b)"
| "times_npfloat x y =
     (if x = NaN \<or> y = NaN \<or> fsgn x * fsgn y = 0 then NaN
      else if 0 < fsgn x * fsgn y then PInf else NInf)"

fun divide_npfloat :: "npfloat \<Rightarrow> npfloat \<Rightarrow> npfloat" where
  "divide_npfloat (Fin a) (Fin b) =
     (if b \<noteq> 0 then Fin (a / b)
      else if a = 0 then NaN else if 0 < a then PInf else NInf)"
| "divide_npfloat NaN y = NaN"
| "divide_npfloat x NaN = NaN"
| "divide_npfloat (Fin a) y = Fin 0"
| "divide_npfloat PInf (Fin b) = (if 0 \<le> b then PInf else NInf)"
| "divide_npfloat NInf (Fin b) = (if 0 \<le> b then NInf else PInf)"
| "divide_npfloat x y = NaN"

definition inverse_npfloat :: "npfloat \<Rightarrow> npfloat" where
  "inverse_npfloat x = divide (Fin 1) x"

fun abs_npfloat :: "npfloat \<Rightarrow> npfloat" where
  "abs_npfloat (Fin a) = Fin \<bar>a\<bar>"
| "abs_npfloat PInf = PInf"
| "abs_npfloat NInf = PInf"
| "abs_npfloat NaN = NaN"

instance ..

end

instance npfloat :: comm_monoid_add
proof
  fix a b c :: npfloat
  show "a + b + c = a + (b + c)"
    by (cases a; cases b; cases c; simp)
  show "a + b = b + a"
    by (cases a; cases b; simp)
  show "0 + a = a"
    by (cases a; simp add: zero_npfloat_def)
qed

instance npfloat :: comm_monoid_mult
proof
  fix a b c :: npfloat
  show "a * b = b * a"
    by (cases a; cases b; simp add: mult.commute)
  show "1 * a = a"
    by (cases a; simp add: one_npfloat_def)
  show "a * b * c = a * (b * c)"
    by (cases a; cases b; cases c;
        simp add: sgn_mult zero_less_mult_iff sgn_0_0 sgn_if split: if_splits)
qed

text \<open>The comparison \<^verbatim>\<open><\<close> of two numbers: false whenever one side is not-a-number.\<close>

fun fless :: "npfloat \<Rightarrow> npfloat \<Rightarrow> bool" where
  "fless (Fin a) (Fin b) = (a < b)"
| "fless NaN y = False"
| "fless x NaN = False"
| "fless x NInf = False"
| "fless PInf y = False"
| "fless x y = True"

text \<open>\<^verbatim>\<open>np.log\<close>: minus infinity at zero and not-a-number below it (NumPy warns, it does
  not raise).\<close>

fun np_log :: "npfloat \<Rightarrow> npfloat" where
  "np_log (Fin a) = (if 0 < a then Fin (ln a) else if a = 0 then NInf else NaN)"
| "np_log PInf = PInf"
| "np_log NInf = NaN"
| "np_log NaN = NaN"

text \<open>
  A one-dimensional array is a list, a two-dimensional array the list of its rows and
  a three-dimensional array a list of matrices. The array operations below are those
  the source applies, written for operands of conforming shapes (the shapes the EM
  loop produces from an \<open>N \<times> D\<close> data matrix with \<open>N > 0\<close>); NumPy's broadcasting of
  other shapes is not modelled.
\<close>

type_synonym vec = "npfloat list"
type_synonym mat = "npfloat list list"

definition ncols :: "mat \<Rightarrow> nat" where
  "ncols X = (case X of [] \<Rightarrow> 0 | r # _ \<Rightarrow> length r)"

text \<open>\<^verbatim>\<open>M * r[:, np.newaxis]\<close>: row \<open>n\<close> of \<open>M\<close> times the number \<open>r[n]\<close>.\<close>

definition scale_rows :: "mat \<Rightarrow> vec \<Rightarrow> mat" where
  "scale_rows M r = map2 (\<lambda>row rn. map (\<lambda>x. x * rn) row) M r"

text \<open>\<^verbatim>\<open>np.sum(M, axis=0)\<close> and \<^verbatim>\<open>np.mean(M, axis=0)\<close>: the sums and the means of the columns.\<close>

definition sum_axis0 :: "mat \<Rightarrow> vec" where
  "sum_axis0 M = map sum_list (transpose M)"

definition mean_axis0 :: "mat \<Rightarrow> vec" where
  "mean_axis0 M = map (\<lambda>c. sum_list c / Fin (real (length M))) (transpose M)"

text \<open>\<^verbatim>\<open>v.mean()\<close> of a one-dimensional array.\<close>

definition mean_vec :: "vec \<Rightarrow> npfloat" where
  "mean_vec v = sum_list v / Fin (real (length v))"

text \<open>\<^verbatim>\<open>X - mu\<close> with \<open>mu\<close> one-dimensional: the vector is subtracted from every row.\<close>

definition sub_row :: "mat \<Rightarrow> vec \<Rightarrow> mat" where
  "sub_row X mu = map (\<lambda>row. map2 (\<lambda>x m. x - m) row mu) X"

definition madd :: "mat \<Rightarrow> mat \<Rightarrow> mat" where
  "madd A B = map2 (map2 (\<lambda>a b. a + b)) A B"

definition msub :: "mat \<Rightarrow> mat \<Rightarrow> mat" where
  "msub A B = map2 (map2 (\<lambda>a b. a - b)) A B"

definition mmul_elem :: "mat \<Rightarrow> mat \<Rightarrow> mat" where
  "mmul_elem A B = map2 (map2 (\<lambda>a b. a * b)) A B"

definition smul :: "npfloat \<Rightarrow> mat \<Rightarrow> mat" where
  "smul c M = map (map (\<lambda>x. c * x)) M"

definition sdiv :: "mat \<Rightarrow> npfloat \<Rightarrow> mat" where
  "sdiv M c = map (map (\<lambda>x. x / c)) M"

definition vdiv :: "vec \<Rightarrow> npfloat \<Rightarrow> vec" where
  "vdiv v c = map (\<lambda>x. x / c) v"

text \<open>\<^verbatim>\<open>A.dot(B)\<close>, \<^verbatim>\<open>np.outer(u, v)\<close> and \<^verbatim>\<open>np.eye(n)\<close>.\<close>

definition dot :: "mat \<Rightarrow> mat \<Rightarrow> mat" where
  "dot A B = map (\<lambda>a. map (\<lambda>b. sum_list (map2 (\<lambda>x y. x * y) a b)) (transpose B)) A"

definition outer :: "vec \<Rightarrow> vec \<Rightarrow> mat" where
  "outer u v = map (\<lambda>a. map (\<lambda>b. a * b) v) u"

definition eye :: "nat \<Rightarrow> mat" where
  "eye n = map (\<lambda>i. map (\<lambda>j. if i = j then 1 else 0) [0..<n]) [0..<n]"

text \<open>\<^verbatim>\<open>np.diag\<close> reads the diagonal of a matrix and builds a diagonal matrix from a
  vector; \<^verbatim>\<open>np.trace\<close> sums the diagonal.\<close>

definition diag_of :: "mat \<Rightarrow> vec" where
  "diag_of M = map (\<lambda>i. M ! i ! i) [0..<min (length M) (ncols M)]"

definition diag_mat :: "vec \<Rightarrow> mat" where
  "diag_mat v =
     map (\<lambda>i. map (\<lambda>j. if i = j then v ! i else 0) [0..<length v]) [0..<length v]"

definition trace :: "mat \<Rightarrow> npfloat" where
  "trace M = sum_list (diag_of M)"

text \<open>\<^verbatim>\<open>np.sum(T, axis=0)\<close> of a three-dimensional array: the entrywise sum of its matrices.\<close>

definition sum_mats :: "mat list \<Rightarrow> mat" where
  "sum_mats T = map sum_axis0 (transpose T)"

text \<open>\<^verbatim>\<open>np.cumsum\<close> of a one-dimensional array.\<close>

fun cumsum_from :: "npfloat \<Rightarrow> vec \<Rightarrow> vec" where
  "cumsum_from acc [] = []"
| "cumsum_from acc (x # xs) = (acc + x) # cumsum_from (acc + x) xs"

definition cumsum :: "vec \<Rightarrow> vec" where
  "cumsum v = cumsum_from 0 v"

text \<open>\<open>is_mat N D M\<close>: \<open>M\<close> has \<open>N\<close> rows of length \<open>D\<close>, the shape \<open>(N, D)\<close> of a NumPy
  array. \<open>is_fin x\<close>: \<open>x\<close> is neither infinite nor not-a-number.\<close>

definition is_mat :: "nat \<Rightarrow> nat \<Rightarrow> 'a list list \<Rightarrow> bool" where
  "is_mat N D M = (length M = N \<and> list_all (\<lambda>row. length row = D) M)"

fun is_fin :: "npfloat \<Rightarrow> bool" where
  "is_fin (Fin a) = True"
| "is_fin x = False"

section \<open>The data model\<close>

text \<open>
  Exceptions are values. \<open>TypeError\<close> is raised by subscripting \<^verbatim>\<open>None\<close>, \<open>KeyError\<close> by
  a dictionary without the key, \<open>AttributeError\<close> by reading an attribute that was never
  assigned, \<open>UnboundLocalError\<close> by reading a local variable before its assignment,
  \<open>IndexError\<close> by a list index out of range; \<open>ValueError\<close> and \<open>LinAlgError\<close> come
  from the numerical library.
\<close>

datatype error =
  TypeError | KeyError | IndexError | AttributeError | UnboundLocalError
  | ValueError | LinAlgError

definition bindE :: "error + 'a \<Rightarrow> ('a \<Rightarrow> error + 'b) \<Rightarrow> error + 'b" where
  "bindE r f = (case r of Inl e \<Rightarrow> Inl e | Inr x \<Rightarrow> f x)"

text \<open>A loop that builds a list and is left by the first exception.\<close>

fun mapE :: "('a \<Rightarrow> error + 'b) \<Rightarrow> 'a list \<Rightarrow> error + 'b list" where
  "mapE f [] = Inr []"
| "mapE f (x # xs) = bindE (f x) (\<lambda>y. bindE (mapE f xs) (\<lambda>ys. Inr (y # ys)))"

text \<open>\<^verbatim>\<open>d[key]\<close> on a dictionary and \<^verbatim>\<open>self.name\<close> on an object.\<close>

definition getitem :: "'a option \<Rightarrow> error + 'a" where
  "getitem v = (case v of None \<Rightarrow> Inl KeyError | Some x \<Rightarrow> Inr x)"

definition getattr :: "'a option \<Rightarrow> error + 'a" where
  "getattr v = (case v of None \<Rightarrow> Inl AttributeError | Some x \<Rightarrow> Inr x)"

text \<open>
  The parameter dictionary. Its keys are fixed strings, each with values of one type,
  so the dictionary is a record of optional entries: \<open>None\<close> is an absent key.
  \<open>components\<close> holds the mixture weights.
\<close>

record param_dict =
  mu_list :: "vec list option"
  components :: "vec option"
  Sigma_list :: "mat list option"
  sigma_sq_list :: "npfloat list option"
  Psi_list :: "mat list option"
  W_list :: "mat list option"

definition no_params :: param_dict where
  "no_params = \<lparr>mu_list = None, components = None, Sigma_list = None,
     sigma_sq_list = None, Psi_list = None, W_list = None\<rparr>"

text \<open>The dictionary of sufficient statistics that the E-step hands to the M-step.\<close>

record suff_stats =
  responsibilities :: mat
  z_list :: "mat list option"
  zz_list :: "mat list list option"

datatype variant = GMM | SphericalGMM | DiagonalGMM | MPPCA | MFA

text \<open>
  A model object: its class and its attributes. An attribute that \<^verbatim>\<open>__init__\<close> does not
  assign (\<open>latent_dim\<close> outside the low-rank classes, \<open>data_dim\<close>, \<open>params\<close>,
  \<open>trainNll\<close>) is \<open>None\<close> until it is assigned. \<open>params\<close> can be assigned \<^verbatim>\<open>None\<close>, which
  is \<open>Some None\<close>.
\<close>

record model =
  cls :: variant
  n_components :: nat
  latent_dim :: "nat option"
  tol :: npfloat
  max_iter :: int
  random_state :: int
  verbose :: bool
  isFitted :: bool
  data_dim :: "nat option"
  params :: "param_dict option option"
  trainNll :: "npfloat option"

text \<open>What the program prints: a line of text, or the line of one EM iteration with the
  values it formats (the index, \<^verbatim>\<open>-ll\<close> and \<^verbatim>\<open>-(ll-oldL)\<close>).\<close>

datatype out_line = Line string | IterInfo int npfloat npfloat

definition not_fitted_msg :: string where
  "not_fitted_msg = ''Model is not yet fitted. First use fit to learn the model params.''"

definition not_converged_msg :: string where
  "not_converged_msg = ''PPCA did not converge within the specified tolerance. You might want to increase the number of iterations.''"

text \<open>
  The library functions the source calls, as parameters of the model:
  \<^verbatim>\<open>scipy.stats.multivariate_normal.pdf\<close>; \<^verbatim>\<open>_mv_gaussian_pdf\<close> of the repository's
  \<^verbatim>\<open>util\<close> module (not among the sources; it is called like the former);
  \<^verbatim>\<open>np.linalg.inv\<close>; the fit of scikit-learn's \<^verbatim>\<open>KMeans\<close> (its \<^verbatim>\<open>cluster_centers_\<close> and
  \<^verbatim>\<open>labels_\<close>), \<^verbatim>\<open>PCA\<close> (\<^verbatim>\<open>components_\<close>, \<^verbatim>\<open>noise_variance_\<close>) and \<^verbatim>\<open>FactorAnalysis\<close>
  (\<^verbatim>\<open>components_\<close>, \<^verbatim>\<open>noise_variance_\<close>); \<^verbatim>\<open>np.cov\<close>; \<^verbatim>\<open>np.random.rand(1)\<close> and
  \<^verbatim>\<open>np.random.multivariate_normal\<close>. The state of NumPy's global random generator has
  type \<open>'g\<close> and is passed along. Every one of them but \<^verbatim>\<open>np.random.rand\<close> may raise:
  the densities and the inverse on a singular matrix, the fits on data they refuse
  (\<^verbatim>\<open>KMeans\<close> on fewer rows than clusters, \<^verbatim>\<open>PCA\<close> on fewer rows or columns than
  components). An exception of the library leaves the calling method at once.
\<close>

record 'g lib =
  mvn_pdf :: "mat \<Rightarrow> vec \<Rightarrow> mat \<Rightarrow> error + vec"
  mv_gaussian_pdf :: "mat \<Rightarrow> vec \<Rightarrow> mat \<Rightarrow> error + vec"
  linalg_inv :: "mat \<Rightarrow> error + mat"
  kmeans_fit :: "'g \<Rightarrow> nat \<Rightarrow> mat \<Rightarrow> (error + mat \<times> nat list) \<times> 'g"
  np_cov :: "mat \<Rightarrow> error + mat"
  pca_fit :: "nat \<Rightarrow> mat \<Rightarrow> error + mat \<times> npfloat"
  fa_fit :: "nat \<Rightarrow> mat \<Rightarrow> error + mat \<times> vec"
  rand1 :: "'g \<Rightarrow> npfloat \<times> 'g"
  multivariate_normal :: "'g \<Rightarrow> vec \<Rightarrow> mat \<Rightarrow> (error + vec) \<times> 'g"

section \<open>Construction\<close>

text \<open>\<^verbatim>\<open>GMM.__init__\<close> (lines 87-94), which \<^verbatim>\<open>SphericalGMM\<close> and \<^verbatim>\<open>DiagonalGMM\<close> inherit.
  The first argument is the class of the object under construction.\<close>

definition GMM_init :: "variant \<Rightarrow> nat \<Rightarrow> npfloat \<Rightarrow> int \<Rightarrow> int \<Rightarrow> bool \<Rightarrow> model" where
  "GMM_init c n_components' tol' max_iter' random_state' verbose' =
     \<lparr>cls = c, n_components = n_components', latent_dim = None, tol = tol',
      max_iter = max_iter', random_state = random_state', verbose = verbose',
      isFitted = False, data_dim = None, params = None, trainNll = None\<rparr>"

text \<open>\<^verbatim>\<open>MPPCA.__init__\<close> (lines 451-456) and \<^verbatim>\<open>MFA.__init__\<close> (lines 615-620): the call of
  the inherited constructor passes the literals \<^verbatim>\<open>tol=1e-3, max_iter=1000,
  random_state=0, verbose=True\<close>.\<close>

definition MPPCA_init :: "nat \<Rightarrow> nat \<Rightarrow> npfloat \<Rightarrow> int \<Rightarrow> int \<Rightarrow> bool \<Rightarrow> model" where
  "MPPCA_init n_components' latent_dim' tol' max_iter' random_state' verbose' =
     (GMM_init MPPCA n_components' (Fin (1 / 1000)) 1000 0 True)
       \<lparr>latent_dim := Some latent_dim'\<rparr>"

definition MFA_init :: "nat \<Rightarrow> nat \<Rightarrow> npfloat \<Rightarrow> int \<Rightarrow> int \<Rightarrow> bool \<Rightarrow> model" where
  "MFA_init n_components' latent_dim' tol' max_iter' random_state' verbose' =
     (GMM_init MFA n_components' (Fin (1 / 1000)) 1000 0 True)
       \<lparr>latent_dim := Some latent_dim'\<rparr>"

section \<open>Covariance matrices and initial parameters\<close>

text \<open>\<^verbatim>\<open>_params_to_Sigma\<close> of the five classes (lines 193-194, 383-385, 446-447, 606-611,
  774-777). A list comprehension over a \<^verbatim>\<open>zip\<close> stops with the shortest list.\<close>

definition params_to_Sigma :: "model \<Rightarrow> param_dict \<Rightarrow> error + mat list" where
  "params_to_Sigma self d =
     (case cls self of
        GMM \<Rightarrow> getitem (Sigma_list d)
      | SphericalGMM \<Rightarrow>
          bindE (getitem (sigma_sq_list d)) (\<lambda>sigmas.
          mapE (\<lambda>sigma_sq. bindE (getattr (data_dim self)) (\<lambda>D.
              Inr (smul sigma_sq (eye D)))) sigmas)
      | DiagonalGMM \<Rightarrow> getitem (Psi_list d)
      | MPPCA \<Rightarrow>
          bindE (getitem (W_list d)) (\<lambda>Ws.
          bindE (getitem (sigma_sq_list d)) (\<lambda>sigmas.
          mapE (\<lambda>(W, sigma_sq). bindE (getattr (data_dim self)) (\<lambda>D.
              Inr (madd (dot W (transpose W)) (smul sigma_sq (eye D))))) (zip Ws sigmas)))
      | MFA \<Rightarrow>
          bindE (getitem (W_list d)) (\<lambda>Ws.
          bindE (getitem (Psi_list d)) (\<lambda>Psis.
          Inr (map (\<lambda>(W, Psi). madd (dot W (transpose W)) Psi) (zip Ws Psis)))))"

text \<open>\<^verbatim>\<open>X[kmeans.labels_==k,:]\<close>: the rows of the cluster \<open>k\<close>; and
  \<^verbatim>\<open>np.sum(kmeans.labels_==k) / n_examples\<close>: its share of the rows.\<close>

definition cluster_rows :: "mat \<Rightarrow> nat list \<Rightarrow> nat \<Rightarrow> mat" where
  "cluster_rows X labels k = map fst (filter (\<lambda>(row, l). l = k) (zip X labels))"

definition cluster_share :: "mat \<Rightarrow> nat list \<Rightarrow> nat \<Rightarrow> npfloat" where
  "cluster_share X labels k =
     Fin (real (length (filter (\<lambda>l. l = k) labels))) / Fin (real (length X))"

text \<open>
  \<^verbatim>\<open>_init_params\<close> of the five classes (lines 196-210, 326-340, 390-404, 458-480,
  622-644). Each has one branch, for \<^verbatim>\<open>init_method == 'kmeans'\<close>; any other method falls
  off the end of the function, which returns \<^verbatim>\<open>None\<close>. In the branch, \<^verbatim>\<open>kmeans.fit(X)\<close>
  runs first, then the loop or comprehension over \<^verbatim>\<open>range(self.n_components)\<close> that
  calls \<^verbatim>\<open>np.cov\<close>, \<^verbatim>\<open>pca.fit\<close> or \<^verbatim>\<open>fa.fit\<close> on the rows of each cluster; an exception
  of any of these calls leaves \<^verbatim>\<open>_init_params\<close>, and with it \<^verbatim>\<open>fit\<close>.
  (\<^verbatim>\<open>seed(self.random_state)\<close> sets the generator of Python's \<^verbatim>\<open>random\<close> module, which
  nothing reads.)
\<close>

definition init_params ::
  "'g lib \<Rightarrow> model \<Rightarrow> string \<Rightarrow> mat \<Rightarrow> 'g \<Rightarrow> (error + param_dict option) \<times> 'g" where
  "init_params L self init_method X g =
     (if init_method = ''kmeans'' then
        (let K = n_components self;
             (km, g') = kmeans_fit L g K X
         in (case km of
               Inl e \<Rightarrow> Inl e
             | Inr (centers, labels) \<Rightarrow>
                (let comps = map (cluster_share X labels) [0..<K]
                 in (case cls self of
                       GMM \<Rightarrow>
                         bindE (mapE (\<lambda>k. np_cov L (transpose (cluster_rows X labels k)))
                                  [0..<K]) (\<lambda>covs.
                         Inr (Some (no_params\<lparr>mu_list := Some centers,
                           Sigma_list := Some covs,
                           components := Some comps\<rparr>)))
                     | SphericalGMM \<Rightarrow>
                         bindE (mapE (\<lambda>k. np_cov L (transpose (cluster_rows X labels k)))
                                  [0..<K]) (\<lambda>covs.
                         Inr (Some (no_params\<lparr>mu_list := Some centers,
                           sigma_sq_list := Some (map (\<lambda>C. mean_vec (diag_of C)) covs),
                           components := Some comps\<rparr>)))
                     | DiagonalGMM \<Rightarrow>
                         bindE (mapE (\<lambda>k. np_cov L (transpose (cluster_rows X labels k)))
                                  [0..<K]) (\<lambda>covs.
                         Inr (Some (no_params\<lparr>mu_list := Some centers,
                           Psi_list := Some (map (\<lambda>C. diag_mat (diag_of C)) covs),
                           components := Some comps\<rparr>)))
                     | MPPCA \<Rightarrow>
                         bindE (mapE (\<lambda>k. bindE (getattr (latent_dim self)) (\<lambda>l.
                             pca_fit L l (cluster_rows X labels k))) [0..<K]) (\<lambda>fits.
                         Inr (Some (no_params\<lparr>mu_list := Some centers,
                           W_list := Some (map (\<lambda>(c, v). transpose c) fits),
                           sigma_sq_list := Some (map (\<lambda>(c, v). v) fits),
                           components := Some comps\<rparr>)))
                     | MFA \<Rightarrow>
                         bindE (mapE (\<lambda>k. bindE (getattr (latent_dim self)) (\<lambda>l.
                             fa_fit L l (cluster_rows X labels k))) [0..<K]) (\<lambda>fits.
                         Inr (Some (no_params\<lparr>mu_list := Some centers,
                           W_list := Some (map (\<lambda>(c, v). transpose c) fits),
                           Psi_list := Some (map (\<lambda>(c, v). diag_mat v) fits),
                           components := Some comps\<rparr>))))),
             g'))
      else (Inr None, g))"

section \<open>The E-step\<close>

text \<open>
  The responsibilities, as all three \<^verbatim>\<open>_e_step\<close> methods compute them (lines 131-142,
  519-528, 683-692): the array \<open>r\<close> starts as zeros of shape \<open>N \<times> K\<close>; the loop over
  \<^verbatim>\<open>zip(range(K), mu_list, Sigma_list)\<close> writes the density of every row under a
  component into the component's column (a column the \<^verbatim>\<open>zip\<close> does not reach stays
  zero); \<open>r\<close> is multiplied by the weights, and every row is divided by its sum.
  The density function returns one number for every row of \<open>X\<close>.
\<close>

definition pdf_columns ::
  "(mat \<Rightarrow> vec \<Rightarrow> mat \<Rightarrow> error + vec) \<Rightarrow> nat \<Rightarrow> mat \<Rightarrow> vec list \<Rightarrow> mat list \<Rightarrow> error + vec list"
  where
  "pdf_columns pdf K X mus Sigmas =
     mapE (\<lambda>(mu, Sigma). pdf X mu Sigma) (take K (zip mus Sigmas))"

definition fill_columns :: "nat \<Rightarrow> nat \<Rightarrow> vec list \<Rightarrow> mat" where
  "fill_columns N K cols =
     map (\<lambda>n. map (\<lambda>c. c ! n) cols @ replicate (K - length cols) 0) [0..<N]"

definition weighted :: "mat \<Rightarrow> vec \<Rightarrow> mat" where
  "weighted r w = map (\<lambda>row. map2 (\<lambda>x c. x * c) row w) r"

definition normalise :: "mat \<Rightarrow> mat" where
  "normalise r = (let r_sum = map sum_list r in map2 (\<lambda>row s. vdiv row s) r r_sum)"

definition sample_ll_of :: "mat \<Rightarrow> vec" where
  "sample_ll_of r = map np_log (map sum_list r)"

text \<open>\<^verbatim>\<open>GMM._e_step\<close> (lines 96-152), which \<^verbatim>\<open>SphericalGMM\<close> and \<^verbatim>\<open>DiagonalGMM\<close> inherit.
  The parameters may be \<^verbatim>\<open>None\<close>; the first statement subscripts them.\<close>

definition e_step_GMM ::
  "'g lib \<Rightarrow> model \<Rightarrow> mat \<Rightarrow> param_dict option \<Rightarrow> error + suff_stats \<times> vec" where
  "e_step_GMM L self X p =
     (case p of
        None \<Rightarrow> Inl TypeError
      | Some d \<Rightarrow>
          bindE (getitem (mu_list d)) (\<lambda>mus.
          bindE (getitem (components d)) (\<lambda>w.
          bindE (params_to_Sigma self d) (\<lambda>Sigmas.
          bindE (pdf_columns (mvn_pdf L) (n_components self) X mus Sigmas) (\<lambda>cols.
            let r = weighted (fill_columns (length X) (n_components self) cols) w
            in Inr (\<lparr>responsibilities = normalise r, z_list = None, zz_list = None\<rparr>,
                    sample_ll_of r))))))"

text \<open>\<^verbatim>\<open>MPPCA._e_step\<close> (lines 482-551): the responsibilities, then for every component the
  conditional mean \<open>z\<close> of the latent variable of every row and its second moment \<open>zz\<close>.\<close>

definition e_step_MPPCA ::
  "'g lib \<Rightarrow> model \<Rightarrow> mat \<Rightarrow> param_dict option \<Rightarrow> error + suff_stats \<times> vec" where
  "e_step_MPPCA L self X p =
     (case p of
        None \<Rightarrow> Inl TypeError
      | Some d \<Rightarrow>
          bindE (getitem (mu_list d)) (\<lambda>mus.
          bindE (getitem (components d)) (\<lambda>w.
          bindE (getitem (W_list d)) (\<lambda>Ws.
          bindE (getitem (sigma_sq_list d)) (\<lambda>sigmas.
          bindE (params_to_Sigma self d) (\<lambda>Sigmas.
          bindE (pdf_columns (mv_gaussian_pdf L) (n_components self) X mus Sigmas) (\<lambda>cols.
          bindE (mapE (\<lambda>(mu, W, sigma_sq).
                   bindE (getattr (latent_dim self)) (\<lambda>l.
                   bindE (linalg_inv L (madd (dot (transpose W) W) (smul sigma_sq (eye l))))
                     (\<lambda>F_inv.
                       let dev = sub_row X mu;
                           z = dot dev (dot W F_inv);
                           zz = map (\<lambda>zn. madd (smul sigma_sq F_inv) (outer zn zn)) z
                       in Inr (z, zz))))
                 (zip mus (zip Ws sigmas))) (\<lambda>stats.
            let r = weighted (fill_columns (length X) (n_components self) cols) w
            in Inr (\<lparr>responsibilities = normalise r, z_list = Some (map fst stats),
                      zz_list = Some (map snd stats)\<rparr>,
                    sample_ll_of r)))))))))"

text \<open>\<^verbatim>\<open>MFA._e_step\<close> (lines 646-716).\<close>

definition e_step_MFA ::
  "'g lib \<Rightarrow> model \<Rightarrow> mat \<Rightarrow> param_dict option \<Rightarrow> error + suff_stats \<times> vec" where
  "e_step_MFA L self X p =
     (case p of
        None \<Rightarrow> Inl TypeError
      | Some d \<Rightarrow>
          bindE (getitem (mu_list d)) (\<lambda>mus.
          bindE (getitem (components d)) (\<lambda>w.
          bindE (getitem (W_list d)) (\<lambda>Ws.
          bindE (getitem (Psi_list d)) (\<lambda>Psis.
          bindE (params_to_Sigma self d) (\<lambda>Sigmas.
          bindE (pdf_columns (mv_gaussian_pdf L) (n_components self) X mus Sigmas) (\<lambda>cols.
          bindE (mapE (\<lambda>(mu, W, Psi).
                   bindE (linalg_inv L (madd (dot W (transpose W)) Psi)) (\<lambda>F_inv.
                   bindE (getattr (latent_dim self)) (\<lambda>l.
                       let dev = sub_row X mu;
                           z = dot dev (dot F_inv W);
                           zz = map (\<lambda>zn. madd (msub (eye l)
                                  (dot (dot (transpose W) F_inv) W)) (outer zn zn)) z
                       in Inr (z, zz))))
                 (zip mus (zip Ws Psis))) (\<lambda>stats.
            let r = weighted (fill_columns (length X) (n_components self) cols) w
            in Inr (\<lparr>responsibilities = normalise r, z_list = Some (map fst stats),
                      zz_list = Some (map snd stats)\<rparr>,
                    sample_ll_of r)))))))))"

text \<open>The method the object's class selects.\<close>

definition e_step ::
  "'g lib \<Rightarrow> model \<Rightarrow> mat \<Rightarrow> param_dict option \<Rightarrow> error + suff_stats \<times> vec" where
  "e_step L self X p =
     (case cls self of
        MPPCA \<Rightarrow> e_step_MPPCA L self X p
      | MFA \<Rightarrow> e_step_MFA L self X p
      | _ \<Rightarrow> e_step_GMM L self X p)"

section \<open>The M-step\<close>

text \<open>\<^verbatim>\<open>np.sum(Y*r[:,np.newaxis], axis=0) / r.sum()\<close>: the mean of the rows of \<open>Y\<close> weighted
  by the responsibility column \<open>r\<close> (lines 179, 369, 431, 584, 749).\<close>

definition weighted_mean :: "mat \<Rightarrow> vec \<Rightarrow> vec" where
  "weighted_mean Y r = vdiv (sum_axis0 (scale_rows Y r)) (sum_list r)"

text \<open>\<^verbatim>\<open>(X*r[:,np.newaxis]).T.dot(X) / r.sum() - np.outer(mu, mu)\<close> (lines 181, 433-434).\<close>

definition weighted_cov :: "mat \<Rightarrow> vec \<Rightarrow> vec \<Rightarrow> mat" where
  "weighted_cov X r mu =
     msub (sdiv (dot (transpose (scale_rows X r)) X) (sum_list r)) (outer mu mu)"

text \<open>\<^verbatim>\<open>GMM._m_step\<close> (lines 154-191). The loop runs over \<^verbatim>\<open>resp.T\<close>, the columns of the
  responsibilities.\<close>

definition m_step_GMM :: "mat \<Rightarrow> suff_stats \<Rightarrow> param_dict option \<Rightarrow> error + param_dict" where
  "m_step_GMM X ss p =
     (let resp = responsibilities ss;
          comps = mean_axis0 resp;
          mus = map (\<lambda>r. weighted_mean X r) (transpose resp);
          Sigmas = map (\<lambda>r. weighted_cov X r (weighted_mean X r)) (transpose resp)
      in Inr (no_params\<lparr>Sigma_list := Some Sigmas, mu_list := Some mus,
                components := Some comps\<rparr>))"

text \<open>\<^verbatim>\<open>SphericalGMM._m_step\<close> (lines 342-381). \<open>d\<close> is the length of the first mean of
  the previous parameters.\<close>

definition m_step_Spherical ::
  "mat \<Rightarrow> suff_stats \<Rightarrow> param_dict option \<Rightarrow> error + param_dict" where
  "m_step_Spherical X ss p =
     (let resp = responsibilities ss;
          comps = mean_axis0 resp
      in (case p of
            None \<Rightarrow> Inl TypeError
          | Some d0 \<Rightarrow>
              bindE (getitem (mu_list d0)) (\<lambda>old_mus.
              (case old_mus of
                 [] \<Rightarrow> Inl IndexError
               | m0 # _ \<Rightarrow>
                  (let d = length m0;
                       mus = map (\<lambda>r. weighted_mean X r) (transpose resp);
                       sigmas = map (\<lambda>r.
                          let mu = weighted_mean X r;
                              dev = sub_row X mu
                          in trace (scale_rows (dot dev (transpose dev)) r)
                               / (Fin (real d) * sum_list r)) (transpose resp)
                   in Inr (no_params\<lparr>sigma_sq_list := Some sigmas, mu_list := Some mus,
                             components := Some comps\<rparr>))))))"

text \<open>\<^verbatim>\<open>DiagonalGMM._m_step\<close> (lines 406-444).\<close>

definition m_step_Diagonal ::
  "mat \<Rightarrow> suff_stats \<Rightarrow> param_dict option \<Rightarrow> error + param_dict" where
  "m_step_Diagonal X ss p =
     (let resp = responsibilities ss;
          comps = mean_axis0 resp;
          mus = map (\<lambda>r. weighted_mean X r) (transpose resp);
          Psis = map (\<lambda>r. diag_mat (diag_of (weighted_cov X r (weighted_mean X r))))
                   (transpose resp)
      in Inr (no_params\<lparr>Psi_list := Some Psis, mu_list := Some mus,
                components := Some comps\<rparr>))"

text \<open>The mean of the low-rank classes (lines 583-584, 748-749): the weighted mean of
  \<^verbatim>\<open>resid = X - z.dot(W.T)\<close>, with \<open>W\<close> from the previous parameters.\<close>

definition resid_mean :: "mat \<Rightarrow> vec \<Rightarrow> mat \<Rightarrow> mat \<Rightarrow> vec" where
  "resid_mean X r W z = weighted_mean (msub X (dot z (transpose W))) r"

text \<open>The new loading matrix (lines 586-588, 753-755): \<^verbatim>\<open>W1.dot(W2)\<close> with
  \<^verbatim>\<open>W2 = np.linalg.inv(np.sum(zz*r[:,np.newaxis,np.newaxis], axis=0))\<close>.\<close>

definition new_W ::
  "'g lib \<Rightarrow> mat \<Rightarrow> vec \<Rightarrow> vec \<Rightarrow> mat \<Rightarrow> mat list \<Rightarrow> error + mat" where
  "new_W L X r mu z zz =
     (let W1 = dot (transpose (scale_rows (sub_row X mu) r)) z
      in bindE (linalg_inv L (sum_mats (map2 (\<lambda>Z rn. map (map (\<lambda>x. x * rn)) Z) zz r)))
           (\<lambda>W2. Inr (dot W1 W2)))"

text \<open>\<^verbatim>\<open>MPPCA._m_step\<close> (lines 553-604). The loop runs over
  \<^verbatim>\<open>zip(resp.T, W_list_old, z_list, zz_list)\<close>.\<close>

definition m_step_MPPCA ::
  "'g lib \<Rightarrow> model \<Rightarrow> mat \<Rightarrow> suff_stats \<Rightarrow> param_dict option \<Rightarrow> error + param_dict" where
  "m_step_MPPCA L self X ss p =
     (let resp = responsibilities ss in
      bindE (getitem (z_list ss)) (\<lambda>zs.
      bindE (getitem (zz_list ss)) (\<lambda>zzs.
      (case p of
         None \<Rightarrow> Inl TypeError
       | Some d0 \<Rightarrow>
          bindE (getitem (W_list d0)) (\<lambda>W_list_old.
          let comps = mean_axis0 resp in
          bindE (mapE (\<lambda>(r, W_old, z, zz).
                   let mu = resid_mean X r W_old z in
                   bindE (new_W L X r mu z zz) (\<lambda>W.
                   let dev = sub_row X mu;
                       s1 = diag_of (dot dev (transpose dev));
                       s2 = diag_of (smul (Fin (- 2))
                              (dot (dot z (transpose W)) (transpose dev)));
                       s3 = map (\<lambda>Z. trace (mmul_elem Z (dot (transpose W) W))) zz
                   in bindE (getattr (data_dim self)) (\<lambda>D.
                      Inr (mu, W,
                        sum_list (map2 (\<lambda>rn s. rn * s) r
                            (map2 (\<lambda>a b. a + b) (map2 (\<lambda>a b. a + b) s1 s2) s3))
                          / (Fin (real D) * sum_list r)))))
                 (zip (transpose resp) (zip W_list_old (zip zs zzs)))) (\<lambda>new.
          Inr (no_params\<lparr>W_list := Some (map (\<lambda>(mu, W, s). W) new),
                 sigma_sq_list := Some (map (\<lambda>(mu, W, s). s) new),
                 mu_list := Some (map (\<lambda>(mu, W, s). mu) new),
                 components := Some comps\<rparr>)))))))"

text \<open>\<^verbatim>\<open>MFA._m_step\<close> (lines 718-772).\<close>

definition m_step_MFA ::
  "'g lib \<Rightarrow> model \<Rightarrow> mat \<Rightarrow> suff_stats \<Rightarrow> param_dict option \<Rightarrow> error + param_dict" where
  "m_step_MFA L self X ss p =
     (let resp = responsibilities ss in
      bindE (getitem (z_list ss)) (\<lambda>zs.
      bindE (getitem (zz_list ss)) (\<lambda>zzs.
      (case p of
         None \<Rightarrow> Inl TypeError
       | Some d0 \<Rightarrow>
          bindE (getitem (W_list d0)) (\<lambda>W_list_old.
          let comps = mean_axis0 resp in
          bindE (mapE (\<lambda>(r, W_old, z, zz).
                   let mu = resid_mean X r W_old z in
                   bindE (new_W L X r mu z zz) (\<lambda>W.
                   let dev = sub_row X mu;
                       s1 = dot (transpose (scale_rows dev r)) dev;
                       s2 = dot W (dot (transpose (scale_rows z r)) dev)
                   in Inr (mu, W, sdiv (diag_mat (diag_of (msub s1 s2))) (sum_list r))))
                 (zip (transpose resp) (zip W_list_old (zip zs zzs)))) (\<lambda>new.
          Inr (no_params\<lparr>W_list := Some (map (\<lambda>(mu, W, P). W) new),
                 Psi_list := Some (map (\<lambda>(mu, W, P). P) new),
                 mu_list := Some (map (\<lambda>(mu, W, P). mu) new),
                 components := Some comps\<rparr>)))))))"

definition m_step ::
  "'g lib \<Rightarrow> model \<Rightarrow> mat \<Rightarrow> suff_stats \<Rightarrow> param_dict option \<Rightarrow> error + param_dict" where
  "m_step L self X ss p =
     (case cls self of
        GMM \<Rightarrow> m_step_GMM X ss p
      | SphericalGMM \<Rightarrow> m_step_Spherical X ss p
      | DiagonalGMM \<Rightarrow> m_step_Diagonal X ss p
      | MPPCA \<Rightarrow> m_step_MPPCA L self X ss p
      | MFA \<Rightarrow> m_step_MFA L self X ss p)"

section \<open>Fitting\<close>

text \<open>
  The \<^verbatim>\<open>for i in range(self.max_iter)\<close> loop of \<^verbatim>\<open>fit\<close> (lines 229-247), by recursion on
  the number of iterations that remain. Its state is the index \<open>i\<close>, the local variables
  \<open>params\<close>, \<open>oldL\<close> and \<open>ll\<close> (unbound until the first iteration assigns it) and the
  lines printed so far. The loop is left by \<^verbatim>\<open>break\<close>, by the end of the range, or by an
  exception of a step; \<open>loop_exit\<close> records which of the first two, since the \<^verbatim>\<open>else\<close>
  clause of the loop runs only after the second.
\<close>

datatype loop_exit = Break | Exhausted

type_synonym loop_state = "param_dict option \<times> npfloat option \<times> loop_exit"

primrec em_loop ::
  "(param_dict option \<Rightarrow> error + suff_stats \<times> vec) \<Rightarrow>
   (suff_stats \<Rightarrow> param_dict option \<Rightarrow> error + param_dict) \<Rightarrow>
   bool \<Rightarrow> npfloat \<Rightarrow> nat \<Rightarrow> int \<Rightarrow> param_dict option \<Rightarrow> npfloat \<Rightarrow> npfloat option \<Rightarrow>
   out_line list \<Rightarrow> (error + loop_state) \<times> out_line list" where
  "em_loop es ms vb t 0 i p oldL ll out = (Inr (p, ll, Exhausted), out)"
| "em_loop es ms vb t (Suc n) i p oldL ll out =
     (case es p of
        Inl e \<Rightarrow> (Inl e, out)
      | Inr (ss, sample_ll) \<Rightarrow>
          (let ll' = sum_list sample_ll;
               out' = (if vb then out @ [IterInfo i (- ll') (- (ll' - oldL))] else out)
           in if fless \<bar>ll' - oldL\<bar> t then (Inr (p, Some ll', Break), out')
              else (case ms ss p of
                      Inl e \<Rightarrow> (Inl e, out')
                    | Inr p' \<Rightarrow> em_loop es ms vb t n (i + 1) (Some p') ll' (Some ll') out')))"

text \<open>
  \<^verbatim>\<open>GMM.fit\<close> (lines 212-257), inherited by every class. It returns nothing: its result
  is the exception it raised, if any, with the object as the call leaves it, the lines
  printed and the state of the random generator. \<^verbatim>\<open>self.data_dim\<close> is assigned first;
  \<^verbatim>\<open>self.params\<close> is assigned before \<^verbatim>\<open>self.trainNll = ll\<close> reads the local \<open>ll\<close>.
  \<open>start_params\<close> is the choice of the first parameters (lines 224-227).
\<close>

definition start_params ::
  "'g lib \<Rightarrow> model \<Rightarrow> param_dict option \<Rightarrow> string \<Rightarrow> mat \<Rightarrow> 'g \<Rightarrow>
   (error + param_dict option) \<times> 'g" where
  "start_params L self params_init init_method X g =
     (case params_init of
        None \<Rightarrow> init_params L self init_method X g
      | Some d \<Rightarrow> (Inr (Some d), g))"

definition fit ::
  "'g lib \<Rightarrow> model \<Rightarrow> mat \<Rightarrow> param_dict option \<Rightarrow> string \<Rightarrow> 'g \<Rightarrow>
   (error + unit) \<times> model \<times> out_line list \<times> 'g" where
  "fit L self X params_init init_method g =
     (let self1 = self\<lparr>data_dim := Some (ncols X)\<rparr>;
          (init, g1) = start_params L self1 params_init init_method X g
      in (case init of
            Inl e \<Rightarrow> (Inl e, self1, [], g1)
          | Inr p0 \<Rightarrow>
             (case em_loop (e_step L self1 X) (m_step L self1 X) (verbose self1) (tol self1)
                     (nat (max_iter self1)) 0 p0 NInf None [] of
                (Inl e, out) \<Rightarrow> (Inl e, self1, out, g1)
              | (Inr (p, ll, ex), out) \<Rightarrow>
                 (let out2 = (if ex = Exhausted \<and> verbose self1
                              then out @ [Line not_converged_msg] else out);
                      self2 = self1\<lparr>params := Some p\<rparr>
                  in (case ll of
                        None \<Rightarrow> (Inl UnboundLocalError, self2, out2, g1)
                      | Some l \<Rightarrow>
                          (Inr (), self2\<lparr>trainNll := Some l, isFitted := True\<rparr>, out2, g1))))))"

section \<open>Sampling and scoring\<close>

text \<open>\<^verbatim>\<open>np.argmin\<close> of an array of truth values: the index of the first \<^verbatim>\<open>False\<close>, or 0
  when there is none; it raises on an empty array.\<close>

definition argmin_bool :: "bool list \<Rightarrow> error + nat" where
  "argmin_bool bs =
     (if bs = [] then Inl ValueError
      else (let i = length (takeWhile (\<lambda>b. b) bs) in Inr (if i < length bs then i else 0)))"

text \<open>The loop of \<^verbatim>\<open>sample\<close> (lines 287-290): a uniform draw selects the component
  \<open>z\<close>, and a row is drawn from its normal distribution.\<close>

primrec sample_loop ::
  "'g lib \<Rightarrow> vec list \<Rightarrow> mat list \<Rightarrow> vec \<Rightarrow> nat \<Rightarrow> 'g \<Rightarrow> (error + mat) \<times> 'g" where
  "sample_loop L mus Sigmas cs 0 g = (Inr [], g)"
| "sample_loop L mus Sigmas cs (Suc n) g =
     (let (r, g1) = rand1 L g
      in (case argmin_bool (map (\<lambda>c. fless c r) cs) of
            Inl e \<Rightarrow> (Inl e, g1)
          | Inr z \<Rightarrow>
             if length mus \<le> z \<or> length Sigmas \<le> z then (Inl IndexError, g1)
             else (case multivariate_normal L g1 (mus ! z) (Sigmas ! z) of
                     (Inl e, g2) \<Rightarrow> (Inl e, g2)
                   | (Inr row, g2) \<Rightarrow>
                      (case sample_loop L mus Sigmas cs n g2 of
                         (Inl e, g3) \<Rightarrow> (Inl e, g3)
                       | (Inr rows, g3) \<Rightarrow> (Inr (row # rows), g3)))))"

text \<open>
  \<^verbatim>\<open>GMM.sample\<close> (lines 259-291), \<^verbatim>\<open>GMM.score_samples\<close> (lines 293-299) and \<^verbatim>\<open>GMM.score\<close>
  (lines 301-322), inherited by every class. On an object that is not fitted each
  prints a message and falls off the end of the function: the call returns \<^verbatim>\<open>None\<close>.
\<close>

definition sample ::
  "'g lib \<Rightarrow> model \<Rightarrow> int \<Rightarrow> 'g \<Rightarrow> (error + mat option) \<times> out_line list \<times> 'g" where
  "sample L self n_samples g =
     (if \<not> isFitted self then (Inr None, [Line not_fitted_msg], g)
      else (case bindE (getattr (params self)) (\<lambda>p.
                   (case p of
                      None \<Rightarrow> Inl TypeError
                    | Some d \<Rightarrow>
                        bindE (getitem (components d)) (\<lambda>w.
                        bindE (getitem (mu_list d)) (\<lambda>mus.
                        bindE (params_to_Sigma self d) (\<lambda>Sigmas.
                        bindE (getattr (data_dim self)) (\<lambda>D.
                        if n_samples < 0 then Inl ValueError
                        else Inr (mus, Sigmas, cumsum w))))))) of
              Inl e \<Rightarrow> (Inl e, [], g)
            | Inr (mus, Sigmas, cs) \<Rightarrow>
                (case sample_loop L mus Sigmas cs (nat n_samples) g of
                   (Inl e, g') \<Rightarrow> (Inl e, [], g')
                 | (Inr rows, g') \<Rightarrow> (Inr (Some rows), [], g'))))"

definition score_samples ::
  "'g lib \<Rightarrow> model \<Rightarrow> mat \<Rightarrow> (error + vec option) \<times> out_line list" where
  "score_samples L self X =
     (if \<not> isFitted self then (Inr None, [Line not_fitted_msg])
      else (case bindE (getattr (params self)) (\<lambda>p. e_step L self X p) of
              Inl e \<Rightarrow> (Inl e, [])
            | Inr (ss, sample_ll) \<Rightarrow> (Inr (Some sample_ll), [])))"

definition score ::
  "'g lib \<Rightarrow> model \<Rightarrow> mat \<Rightarrow> (error + npfloat option) \<times> out_line list" where
  "score L self X =
     (if \<not> isFitted self then (Inr None, [Line not_fitted_msg])
      else (case score_samples L self X of
              (Inl e, out) \<Rightarrow> (Inl e, out)
            | (Inr None, out) \<Rightarrow> (Inl AttributeError, out)
            | (Inr (Some sample_ll), out) \<Rightarrow> (Inr (Some (mean_vec sample_ll)), out)))"

section \<open>A concrete library\<close>

text \<open>
  An instance of the library for the concrete runs below. The density is the normal
  density on one-dimensional data, the inverse that of a \<open>1 \<times> 1\<close> matrix, the
  covariance the sample covariance of the rows of its argument. The clustering
  raises \<open>ValueError\<close> when it is asked for no cluster or for more clusters than there
  are rows, as \<^verbatim>\<open>KMeans.fit\<close> does, and is otherwise the one with a single cluster (its
  centre is the mean row), which is the clustering of \<^verbatim>\<open>KMeans\<close> for one cluster; no
  run below asks it for more. The decompositions and the random draws are not reached
  by any run below; constant results stand in.
\<close>

definition gauss1_pdf :: "mat \<Rightarrow> vec \<Rightarrow> mat \<Rightarrow> error + vec" where
  "gauss1_pdf X mu Sig =
     (case (mu, Sig) of
        ([Fin m], [[Fin v]]) \<Rightarrow>
          if v \<le> 0 then Inl LinAlgError
          else mapE (\<lambda>row. case row of
                  [Fin x] \<Rightarrow> Inr (Fin (exp (- ((x - m) * (x - m)) / (2 * v)) / sqrt (2 * pi * v)))
                | _ \<Rightarrow> Inl ValueError) X
      | _ \<Rightarrow> Inl ValueError)"

definition inv1 :: "mat \<Rightarrow> error + mat" where
  "inv1 M =
     (case M of
        [[Fin a]] \<Rightarrow> if a = 0 then Inl LinAlgError else Inr [[Fin (1 / a)]]
      | _ \<Rightarrow> Inl LinAlgError)"

definition cov_rows :: "mat \<Rightarrow> mat" where
  "cov_rows M =
     map (\<lambda>a. map (\<lambda>b.
         sum_list (map2 (\<lambda>x y. (x - mean_vec a) * (y - mean_vec b)) a b)
           / Fin (real (length a) - 1)) M) M"

definition lib1 :: "unit lib" where
  "lib1 = \<lparr>mvn_pdf = gauss1_pdf, mv_gaussian_pdf = gauss1_pdf, linalg_inv = inv1,
     kmeans_fit = (\<lambda>g K X.
       (if K = 0 \<or> length X < K then Inl ValueError
        else Inr ([mean_axis0 X], replicate (length X) 0), g)),
     np_cov = (\<lambda>M. Inr (cov_rows M)),
     pca_fit = (\<lambda>l X. Inr (replicate l (replicate (ncols X) 0), 0)),
     fa_fit = (\<lambda>l X. Inr (replicate l (replicate (ncols X) 0), replicate (ncols X) 0)),
     rand1 = (\<lambda>g. (Fin (1 / 2), g)),
     multivariate_normal = (\<lambda>g mu Sig. (Inr mu, g))\<rparr>"

text \<open>The data of the concrete runs: two points on a line and the parameters of one
  standard normal component, which the M-step maps to themselves.\<close>

definition X1 :: mat where
  "X1 = [[Fin (- 1)], [Fin 1]]"

definition d1 :: param_dict where
  "d1 = no_params\<lparr>mu_list := Some [[Fin 0]], Sigma_list := Some [[[Fin 1]]],
          components := Some [Fin 1]\<rparr>"

definition c1 :: real where
  "c1 = exp (- (1 / 2)) / sqrt (2 * pi)"

definition gmm1 :: "int \<Rightarrow> bool \<Rightarrow> model" where
  "gmm1 max_iter' verbose' = GMM_init GMM 1 (Fin (1 / 1000)) max_iter' 0 verbose'"

text \<open>The model that the run of \<open>fit\<close> on \<open>X1\<close> from \<open>d1\<close> leaves.\<close>

definition fitted1 :: model where
  "fitted1 = (gmm1 1000 True)\<lparr>data_dim := Some 1, params := Some (Some d1),
      trainNll := Some (Fin (ln c1 + ln c1)), isFitted := True\<rparr>"

text \<open>\<open>d1\<close> with the weight 0, and the parameters of two components of weight 1/2 on
  \<open>X1\<close>, with the two densities \<open>a4\<close> and \<open>b4\<close> that occur there.\<close>

definition dz :: param_dict where
  "dz = d1\<lparr>components := Some [Fin 0]\<rparr>"

definition d4 :: param_dict where
  "d4 = no_params\<lparr>mu_list := Some [[Fin (- 1)], [Fin 1]],
          Sigma_list := Some [[[Fin 1]], [[Fin 1]]],
          components := Some [Fin (1 / 2), Fin (1 / 2)]\<rparr>"

definition a4 :: real where
  "a4 = 1 / sqrt (2 * pi)"

definition b4 :: real where
  "b4 = exp (- 2) / sqrt (2 * pi)"

text \<open>Two points in the plane, with responsibilities for two components; and
  sufficient statistics and parameters of one low-rank component with one latent
  dimension, for a model of either low-rank class fitted to two-dimensional data.\<close>

definition X2 :: mat where
  "X2 = [[Fin 1, Fin 2], [Fin 3, Fin 4]]"

definition ss2 :: suff_stats where
  "ss2 = \<lparr>responsibilities = [[Fin (1 / 4), Fin (3 / 4)], [Fin (1 / 2), Fin (1 / 2)]],
          z_list = None, zz_list = None\<rparr>"

definition ss3 :: suff_stats where
  "ss3 = \<lparr>responsibilities = [[Fin 1], [Fin 1]],
          z_list = Some [[[Fin 1], [Fin 2]]],
          zz_list = Some [[[[Fin 2]], [[Fin 5]]]]\<rparr>"

definition d3 :: param_dict where
  "d3 = \<lparr>mu_list = Some [[Fin 0, Fin 0]], components = Some [Fin 1], Sigma_list = None,
          sigma_sq_list = Some [Fin 1], Psi_list = Some [[[Fin 1, Fin 0], [Fin 0, Fin 1]]],
          W_list = Some [[[Fin 1], [Fin 0]]]\<rparr>"

definition low_rank2 :: "variant \<Rightarrow> model" where
  "low_rank2 c =
     (if c = MFA then MFA_init 1 1 (Fin (1 / 1000)) 1000 0 True
      else MPPCA_init 1 1 (Fin (1 / 1000)) 1000 0 True)\<lparr>data_dim := Some 2\<rparr>"

section \<open>The iterations of a run, as the specification words them\<close>

text \<open>
  The specification speaks of the iterations of a run: of the total log-likelihood of
  an iteration, of the one of the previous iteration, and of the parameters that a
  completed M-step produces. These are defined here from the two steps alone,
  without the loop, and the theorems on \<open>fit\<close> compare the loop with them.
  \<open>em_step\<close> is one completed iteration, \<open>em_params n\<close> the parameters after \<open>n\<close>
  completed iterations (\<open>None\<close> when a step raised), \<open>ll_at n\<close> the total
  log-likelihood that the E-step of iteration \<open>n\<close> computes (iterations count from 0),
  \<open>prev_ll n\<close> that of the iteration before it (\<open>oldL\<close> before the first), and
  \<open>within_tol n\<close> says that the two differ by less than the tolerance in absolute value.
\<close>

type_synonym estep = "param_dict option \<Rightarrow> error + suff_stats \<times> vec"
type_synonym mstep = "suff_stats \<Rightarrow> param_dict option \<Rightarrow> error + param_dict"

definition total_ll :: "estep \<Rightarrow> param_dict option \<Rightarrow> npfloat option" where
  "total_ll es p =
     (case es p of Inl e \<Rightarrow> None | Inr (ss, sample_ll) \<Rightarrow> Some (sum_list sample_ll))"

definition em_step :: "estep \<Rightarrow> mstep \<Rightarrow> param_dict option \<Rightarrow> param_dict option option" where
  "em_step es ms p =
     (case es p of
        Inl e \<Rightarrow> None
      | Inr (ss, sample_ll) \<Rightarrow> (case ms ss p of Inl e \<Rightarrow> None | Inr p' \<Rightarrow> Some (Some p')))"

primrec em_params ::
  "estep \<Rightarrow> mstep \<Rightarrow> nat \<Rightarrow> param_dict option \<Rightarrow> param_dict option option" where
  "em_params es ms 0 p = Some p"
| "em_params es ms (Suc n) p =
     (case em_step es ms p of None \<Rightarrow> None | Some p' \<Rightarrow> em_params es ms n p')"

definition ll_at :: "estep \<Rightarrow> mstep \<Rightarrow> nat \<Rightarrow> param_dict option \<Rightarrow> npfloat option" where
  "ll_at es ms n p = (case em_params es ms n p of None \<Rightarrow> None | Some q \<Rightarrow> total_ll es q)"

definition prev_ll ::
  "estep \<Rightarrow> mstep \<Rightarrow> npfloat \<Rightarrow> nat \<Rightarrow> param_dict option \<Rightarrow> npfloat option" where
  "prev_ll es ms oldL n p = (case n of 0 \<Rightarrow> Some oldL | Suc m \<Rightarrow> ll_at es ms m p)"

definition within_tol ::
  "estep \<Rightarrow> mstep \<Rightarrow> npfloat \<Rightarrow> npfloat \<Rightarrow> nat \<Rightarrow> param_dict option \<Rightarrow> bool" where
  "within_tol es ms t oldL n p =
     (case (ll_at es ms n p, prev_ll es ms oldL n p) of
        (Some l, Some l') \<Rightarrow> fless \<bar>l - l'\<bar> t
      | _ \<Rightarrow> False)"

section \<open>The loop and the iterations\<close>

lemma ll_at_0: "ll_at es ms 0 p = total_ll es p"
  by (simp add: ll_at_def)

lemma ll_at_Suc:
  "ll_at es ms (Suc n) p =
     (case em_step es ms p of None \<Rightarrow> None | Some p' \<Rightarrow> ll_at es ms n p')"
  by (simp add: ll_at_def split: option.splits)

lemma within_tol_0:
  "within_tol es ms t oldL 0 p =
     (case total_ll es p of None \<Rightarrow> False | Some l \<Rightarrow> fless \<bar>l - oldL\<bar> t)"
  by (simp add: within_tol_def prev_ll_def ll_at_0 split: option.splits)

lemma within_tol_Suc:
  "within_tol es ms t oldL (Suc n) p =
     (case (em_step es ms p, total_ll es p) of
        (Some p', Some l) \<Rightarrow> within_tol es ms t l n p'
      | _ \<Rightarrow> False)"
proof (cases "em_step es ms p")
  case None
  then show ?thesis by (simp add: within_tol_def ll_at_Suc)
next
  case (Some p')
  then obtain l where l: "total_ll es p = Some l"
    by (auto simp: em_step_def total_ll_def split: sum.splits)
  show ?thesis
  proof (cases n)
    case 0
    then show ?thesis using Some l
      by (simp add: within_tol_def ll_at_Suc prev_ll_def ll_at_0)
  next
    case (Suc m)
    then show ?thesis using Some l
      by (simp add: within_tol_def ll_at_Suc prev_ll_def)
  qed
qed

lemma ll_at_defined:
  "em_params es ms (Suc m) p = Some q \<Longrightarrow> \<exists>l. ll_at es ms m p = Some l"
proof (induction m arbitrary: p)
  case 0
  then show ?case
    by (auto simp: ll_at_0 em_step_def total_ll_def split: option.splits sum.splits)
next
  case (Suc m)
  from Suc.prems obtain p' where
    "em_step es ms p = Some p'" "em_params es ms (Suc m) p' = Some q"
    by (auto split: option.splits)
  then show ?case using Suc.IH[of p'] by (simp add: ll_at_Suc)
qed

text \<open>The loop leaves by \<^verbatim>\<open>break\<close> in the first iteration within the tolerance, with the
  parameters as that iteration found them.\<close>

lemma em_loop_break:
  "i < n \<Longrightarrow> within_tol es ms t oldL i p \<Longrightarrow> (\<forall>j<i. \<not> within_tol es ms t oldL j p) \<Longrightarrow>
   \<exists>q l out'. em_params es ms i p = Some q \<and> ll_at es ms i p = Some l \<and>
     em_loop es ms vb t n k p oldL ll out = (Inr (q, Some l, Break), out')"
proof (induction i arbitrary: n k p oldL ll out)
  case 0
  then obtain n' where n: "n = Suc n'" by (cases n) auto
  from 0 obtain ss sl where es: "es p = Inr (ss, sl)" and f: "fless \<bar>sum_list sl - oldL\<bar> t"
    by (auto simp: within_tol_0 total_ll_def split: sum.splits option.splits)
  show ?case using es f n by (simp add: ll_at_0 total_ll_def Let_def)
next
  case (Suc i)
  then obtain n' where n: "n = Suc n'" and i: "i < n'" by (cases n) auto
  from Suc.prems(2) obtain p' l where
    st: "em_step es ms p = Some p'" and l: "total_ll es p = Some l"
    and w: "within_tol es ms t l i p'"
    by (auto simp: within_tol_Suc split: option.splits)
  from st l obtain ss sl q where
    es: "es p = Inr (ss, sl)" and ms: "ms ss p = Inr q" and p': "p' = Some q"
    and l': "l = sum_list sl"
    by (auto simp: em_step_def total_ll_def split: sum.splits)
  have nw0: "\<not> fless \<bar>sum_list sl - oldL\<bar> t"
    using Suc.prems(3)[rule_format, of 0] es by (simp add: within_tol_0 total_ll_def)
  have nw: "\<forall>j<i. \<not> within_tol es ms t l j p'"
  proof (intro allI impI)
    fix j assume "j < i"
    then have "\<not> within_tol es ms t oldL (Suc j) p" using Suc.prems(3) by simp
    then show "\<not> within_tol es ms t l j p'" using st l by (simp add: within_tol_Suc)
  qed
  from Suc.IH[OF i w nw] obtain q' l2 out' where
    r: "em_params es ms i p' = Some q'" "ll_at es ms i p' = Some l2"
       "em_loop es ms vb t n' (k + 1) p' l (Some l)
          (if vb then out @ [IterInfo k (- l) (- (l - oldL))] else out) =
        (Inr (q', Some l2, Break), out')"
    by blast
  show ?case using es ms nw0 n r st p' l'
    by (cases vb) (simp_all add: ll_at_Suc Let_def)
qed

text \<open>The loop runs to the end of the range when no iteration is within the tolerance
  and no step raises.\<close>

lemma em_loop_exhausted:
  "em_params es ms n p = Some q \<Longrightarrow> (\<forall>j<n. \<not> within_tol es ms t oldL j p) \<Longrightarrow>
   \<exists>out'. em_loop es ms vb t n k p oldL ll out =
     (Inr (q, (case n of 0 \<Rightarrow> ll | Suc m \<Rightarrow> ll_at es ms m p), Exhausted), out')"
proof (induction n arbitrary: k p oldL ll out)
  case 0
  then show ?case by simp
next
  case (Suc n)
  from Suc.prems(1) obtain p' where
    st: "em_step es ms p = Some p'" and r: "em_params es ms n p' = Some q"
    by (auto split: option.splits)
  from st obtain ss sl q0 where
    es: "es p = Inr (ss, sl)" and ms: "ms ss p = Inr q0" and p': "p' = Some q0"
    by (auto simp: em_step_def split: sum.splits)
  let ?l = "sum_list sl"
  have l: "total_ll es p = Some ?l" using es by (simp add: total_ll_def)
  have nw0: "\<not> fless \<bar>?l - oldL\<bar> t"
    using Suc.prems(2)[rule_format, of 0] es by (simp add: within_tol_0 total_ll_def)
  have nw: "\<forall>j<n. \<not> within_tol es ms t ?l j p'"
  proof (intro allI impI)
    fix j assume "j < n"
    then have "\<not> within_tol es ms t oldL (Suc j) p" using Suc.prems(2) by simp
    then show "\<not> within_tol es ms t ?l j p'" using st l by (simp add: within_tol_Suc)
  qed
  from Suc.IH[OF r nw] obtain out' where
    "em_loop es ms vb t n (k + 1) p' ?l (Some ?l)
       (if vb then out @ [IterInfo k (- ?l) (- (?l - oldL))] else out) =
     (Inr (q, (case n of 0 \<Rightarrow> Some ?l | Suc m \<Rightarrow> ll_at es ms m p'), Exhausted), out')"
    by blast
  moreover have "(case n of 0 \<Rightarrow> Some ?l | Suc m \<Rightarrow> ll_at es ms m p') = ll_at es ms n p"
    using st l by (cases n) (simp_all add: ll_at_0 ll_at_Suc)
  ultimately show ?case using es ms nw0 p' by (simp add: Let_def)
qed

text \<open>The loop prints nothing but the lines of its iterations, and those only when
  \<open>verbose\<close> is set.\<close>

lemma em_loop_out:
  "\<exists>extra. snd (em_loop es ms vb t n k p oldL ll out) = out @ extra \<and>
     (\<forall>x\<in>set extra. \<exists>i a b. x = IterInfo i a b) \<and> (\<not> vb \<longrightarrow> extra = [])"
proof (induction n arbitrary: k p oldL ll out)
  case 0
  then show ?case by simp
next
  case (Suc n)
  show ?case
  proof (cases "es p")
    case (Inl e)
    then show ?thesis by simp
  next
    case (Inr a)
    obtain ss sl where a: "a = (ss, sl)" by (cases a)
    let ?l = "sum_list sl"
    let ?out = "if vb then out @ [IterInfo k (- ?l) (- (?l - oldL))] else out"
    have o: "\<exists>e0. ?out = out @ e0 \<and> (\<forall>x\<in>set e0. \<exists>i a b. x = IterInfo i a b) \<and>
        (\<not> vb \<longrightarrow> e0 = [])"
      by auto
    show ?thesis
    proof (cases "fless \<bar>?l - oldL\<bar> t")
      case True
      then show ?thesis using Inr a o by (simp add: Let_def)
    next
      case False
      show ?thesis
      proof (cases "ms ss p")
        case (Inl e)
        then show ?thesis using Inr a o False by (simp add: Let_def)
      next
        case (Inr p')
        from Suc.IH[of "k + 1" "Some p'" ?l "Some ?l" ?out] obtain extra where
          e: "snd (em_loop es ms vb t n (k + 1) (Some p') ?l (Some ?l) ?out) = ?out @ extra"
             "\<forall>x\<in>set extra. \<exists>i a b. x = IterInfo i a b" "\<not> vb \<longrightarrow> extra = []"
          by blast
        from o obtain e0 where
          e0: "?out = out @ e0" "\<forall>x\<in>set e0. \<exists>i a b. x = IterInfo i a b" "\<not> vb \<longrightarrow> e0 = []"
          by blast
        have "snd (em_loop es ms vb t (Suc n) k p oldL ll out) = out @ (e0 @ extra)"
          using \<open>es p = Inr a\<close> a False Inr e(1) e0(1) by (simp add: Let_def)
        moreover have "\<forall>x\<in>set (e0 @ extra). \<exists>i a b. x = IterInfo i a b"
          using e(2) e0(2) by auto
        moreover have "\<not> vb \<longrightarrow> e0 @ extra = []" using e(3) e0(3) by simp
        ultimately show ?thesis by blast
      qed
    qed
  qed
qed

text \<open>No first iteration is within the tolerance: \<open>oldL\<close> starts at minus infinity, and
  the difference is plus infinity or not-a-number.\<close>

lemma first_iteration_not_within_tol:
  "\<not> within_tol es ms t NInf 0 p"
proof -
  have "\<not> fless \<bar>l - NInf\<bar> t" for l
    by (cases l; cases t; simp add: minus_npfloat_def)
  then show ?thesis by (simp add: within_tol_0 split: option.splits)
qed

lemma mapE_total:
  "(\<And>x. \<exists>y. f x = Inr y) \<Longrightarrow> \<exists>ys. mapE f xs = Inr ys"
proof (induction xs)
  case Nil
  then show ?case by simp
next
  case (Cons x xs)
  then obtain ys where "mapE f xs = Inr ys" by blast
  moreover obtain y where "f x = Inr y" using Cons.prems by blast
  ultimately show ?case by (simp add: bindE_def)
qed

section \<open>The concrete run\<close>

lemma c1_pos: "0 < c1"
  by (simp add: c1_def)

lemma gauss1_pdf_X1: "gauss1_pdf X1 [Fin 0] [[Fin 1]] = Inr [Fin c1, Fin c1]"
  by (simp add: gauss1_pdf_def X1_def bindE_def c1_def)

lemma e_step_X1:
  assumes "cls s = GMM" and "n_components s = 1"
  shows "e_step lib1 s X1 (Some d1) =
     Inr (\<lparr>responsibilities = [[Fin 1], [Fin 1]], z_list = None, zz_list = None\<rparr>,
          [Fin (ln c1), Fin (ln c1)])"
  using c1_pos assms
  by (simp add: e_step_def e_step_GMM_def d1_def no_params_def getitem_def
      bindE_def params_to_Sigma_def pdf_columns_def lib1_def gauss1_pdf_X1 fill_columns_def
      weighted_def normalise_def sample_ll_of_def vdiv_def Let_def X1_def[symmetric])
    (simp add: X1_def)

lemma m_step_X1:
  assumes "cls s = GMM"
  shows "m_step lib1 s X1
     \<lparr>responsibilities = [[Fin 1], [Fin 1]], z_list = None, zz_list = None\<rparr> (Some d1) = Inr d1"
  using assms
  by (simp add: m_step_def m_step_GMM_def d1_def no_params_def mean_axis0_def
      weighted_mean_def weighted_cov_def vdiv_def sum_axis0_def scale_rows_def X1_def msub_def
      sdiv_def dot_def outer_def minus_npfloat_def Let_def)

lemma gmm1_simps:
  "cls (gmm1 n v) = GMM" "n_components (gmm1 n v) = 1" "tol (gmm1 n v) = Fin (1 / 1000)"
  "max_iter (gmm1 n v) = n" "verbose (gmm1 n v) = v" "isFitted (gmm1 n v) = False"
  by (simp_all add: gmm1_def GMM_init_def)

lemma em_step_X1:
  assumes "cls s = GMM" and "n_components s = 1"
  shows "em_step (e_step lib1 s X1) (m_step lib1 s X1) (Some d1) = Some (Some d1)"
  using assms by (simp add: em_step_def e_step_X1 m_step_X1)

lemma total_ll_X1:
  assumes "cls s = GMM" and "n_components s = 1"
  shows "total_ll (e_step lib1 s X1) (Some d1) = Some (Fin (ln c1 + ln c1))"
  using assms by (simp add: total_ll_def e_step_X1)

lemma ncols_X1: "ncols X1 = 1"
  by (simp add: ncols_def X1_def)

section \<open>Calls on a model that is not fitted\<close>

text \<open>
  C1 (as amended). On a model of any class whose \<open>isFitted\<close> is false, \<open>sample\<close>,
  \<open>score_samples\<close> and \<open>score\<close> print the line "Model is not yet fitted. First use fit
  to learn the model params." and return \<^verbatim>\<open>None\<close>; none of them raises.
\<close>

theorem unfitted_calls_print_and_return_None:
  assumes "\<not> isFitted self"
  shows "sample L self n_samples g = (Inr None, [Line not_fitted_msg], g) \<and>
         score_samples L self X = (Inr None, [Line not_fitted_msg]) \<and>
         score L self X = (Inr None, [Line not_fitted_msg])"
  using assms by (simp add: sample_def score_samples_def score_def)

theorem unfitted_calls_witness:
  "\<not> isFitted (gmm1 1000 True) \<and>
   sample lib1 (gmm1 1000 True) 3 () = (Inr None, [Line not_fitted_msg], ()) \<and>
   score_samples lib1 (gmm1 1000 True) X1 = (Inr None, [Line not_fitted_msg]) \<and>
   score lib1 (gmm1 1000 True) X1 = (Inr None, [Line not_fitted_msg])"
  using unfitted_calls_print_and_return_None[of "gmm1 1000 True" lib1 3 "()" X1]
  by (simp add: gmm1_simps)

text \<open>The claim as stated fails: on a freshly constructed model the three calls return
  normally, with the value \<^verbatim>\<open>None\<close>, and no error is signalled.\<close>

theorem unfitted_calls_counterexample:
  "isFitted (MPPCA_init 2 1 (Fin (1 / 1000)) 1000 0 True) = False \<and>
   fst (sample lib1 (MPPCA_init 2 1 (Fin (1 / 1000)) 1000 0 True) 1 ()) = Inr None \<and>
   fst (score_samples lib1 (MPPCA_init 2 1 (Fin (1 / 1000)) 1000 0 True) X1) = Inr None \<and>
   fst (score lib1 (MPPCA_init 2 1 (Fin (1 / 1000)) 1000 0 True) X1) = Inr None"
  by (simp add: sample_def score_samples_def score_def MPPCA_init_def GMM_init_def)

section \<open>Construction of the low-rank models\<close>

text \<open>
  C2. The configuration of a constructed \<open>MPPCA\<close> or \<open>MFA\<close> model should hold the
  \<open>tol\<close>, \<open>max_iter\<close>, \<open>random_state\<close> and \<open>verbose\<close> it was constructed with. It does
  not: whatever the arguments, it holds \<open>1e-3\<close>, \<open>1000\<close>, \<open>0\<close> and \<open>True\<close>. Constructed
  with \<open>tol = 0.5\<close>, \<open>max_iter = 5\<close>, \<open>random_state = 7\<close> and \<open>verbose = False\<close>:
\<close>

theorem low_rank_init_drops_arguments:
  "tol (MPPCA_init 2 1 (Fin (1 / 2)) 5 7 False) = Fin (1 / 1000) \<and>
   max_iter (MPPCA_init 2 1 (Fin (1 / 2)) 5 7 False) = 1000 \<and>
   random_state (MPPCA_init 2 1 (Fin (1 / 2)) 5 7 False) = 0 \<and>
   verbose (MPPCA_init 2 1 (Fin (1 / 2)) 5 7 False) = True \<and>
   tol (MFA_init 2 1 (Fin (1 / 2)) 5 7 False) = Fin (1 / 1000) \<and>
   max_iter (MFA_init 2 1 (Fin (1 / 2)) 5 7 False) = 1000 \<and>
   random_state (MFA_init 2 1 (Fin (1 / 2)) 5 7 False) = 0 \<and>
   verbose (MFA_init 2 1 (Fin (1 / 2)) 5 7 False) = True \<and>
   tol (GMM_init GMM 2 (Fin (1 / 2)) 5 7 False) = Fin (1 / 2) \<and>
   max_iter (GMM_init GMM 2 (Fin (1 / 2)) 5 7 False) = 5 \<and>
   random_state (GMM_init GMM 2 (Fin (1 / 2)) 5 7 False) = 7 \<and>
   verbose (GMM_init GMM 2 (Fin (1 / 2)) 5 7 False) = False"
  by (simp add: MPPCA_init_def MFA_init_def GMM_init_def)

section \<open>Convergence\<close>

text \<open>
  C3. Let \<open>i\<close> be the first iteration of a run of \<open>fit\<close> whose total log-likelihood
  differs from that of the previous iteration by less than \<open>tol\<close> in absolute value
  (\<open>i\<close> below \<open>max_iter\<close>, iterations counted from 0, the previous log-likelihood of
  iteration 0 being minus infinity). Then \<open>fit\<close> returns without an exception, and the
  model is fitted and holds the parameters after \<open>i\<close> completed M-steps (those of
  iterations \<open>0\<close> to \<open>i - 1\<close>; the first parameters when \<open>i = 0\<close>): the M-step of
  iteration \<open>i\<close> is not applied. Its \<open>trainNll\<close> is the log-likelihood of iteration \<open>i\<close>.
\<close>

theorem fit_stops_at_first_iteration_within_tol:
  fixes L :: "'g lib"
  defines "self1 \<equiv> \<lambda>self X. self\<lparr>data_dim := Some (ncols X)\<rparr>"
  assumes "start_params L (self1 self X) params_init init_method X g = (Inr p0, g1)"
      and "int i < max_iter self"
      and "within_tol (e_step L (self1 self X) X) (m_step L (self1 self X) X)
             (tol self) NInf i p0"
      and "\<forall>j<i. \<not> within_tol (e_step L (self1 self X) X) (m_step L (self1 self X) X)
             (tol self) NInf j p0"
  shows "fst (fit L self X params_init init_method g) = Inr () \<and>
         fst (snd (fit L self X params_init init_method g)) =
           self\<lparr>data_dim := Some (ncols X),
                params := em_params (e_step L (self1 self X) X) (m_step L (self1 self X) X)
                            i p0,
                trainNll := ll_at (e_step L (self1 self X) X) (m_step L (self1 self X) X)
                            i p0,
                isFitted := True\<rparr>"
proof -
  let ?es = "e_step L (self1 self X) X" and ?ms = "m_step L (self1 self X) X"
  have "i < nat (max_iter self)" using assms(3) by simp
  from em_loop_break[OF this assms(4) assms(5), of "verbose self" 0 None "[]"]
  obtain q l out' where
    r: "em_params ?es ?ms i p0 = Some q" "ll_at ?es ?ms i p0 = Some l"
       "em_loop ?es ?ms (verbose self) (tol self) (nat (max_iter self)) 0 p0 NInf None [] =
          (Inr (q, Some l, Break), out')"
    by blast
  show ?thesis using assms(2) r
    by (simp add: fit_def self1_def)
qed

text \<open>A run that stops in iteration 1: the parameters \<open>d1\<close> are a fixed point of the
  M-step on \<open>X1\<close>, so the log-likelihood of iteration 1 is that of iteration 0.\<close>

theorem fit_stops_witness:
  "int 1 < max_iter (gmm1 1000 True) \<and>
   fst (fit lib1 (gmm1 1000 True) X1 (Some d1) ''kmeans'' ()) = Inr () \<and>
   fst (snd (fit lib1 (gmm1 1000 True) X1 (Some d1) ''kmeans'' ())) =
     (gmm1 1000 True)\<lparr>data_dim := Some 1, params := Some (Some d1),
        trainNll := Some (Fin (ln c1 + ln c1)), isFitted := True\<rparr>"
proof -
  let ?s = "(gmm1 1000 True)\<lparr>data_dim := Some (ncols X1)\<rparr>"
  let ?es = "e_step lib1 ?s X1"
  let ?ms = "m_step lib1 ?s X1"
  have s: "cls ?s = GMM" "n_components ?s = 1" by (simp_all add: gmm1_simps)
  have st: "start_params lib1 ?s (Some d1) ''kmeans'' X1 () = (Inr (Some d1), ())"
    by (simp add: start_params_def)
  have a: "int 1 < max_iter (gmm1 1000 True)" by (simp add: gmm1_simps)
  have b: "within_tol ?es ?ms (tol (gmm1 1000 True)) NInf 1 (Some d1)"
    by (simp add: within_tol_Suc within_tol_0 em_step_X1[OF s] total_ll_X1[OF s] gmm1_simps
        minus_npfloat_def)
  have c: "\<forall>j<1. \<not> within_tol ?es ?ms (tol (gmm1 1000 True)) NInf j (Some d1)"
    by (simp add: first_iteration_not_within_tol)
  have e: "em_params ?es ?ms 1 (Some d1) = Some (Some d1)"
    by (simp add: em_step_X1[OF s])
  have f: "ll_at ?es ?ms 1 (Some d1) = Some (Fin (ln c1 + ln c1))"
    by (simp add: ll_at_Suc ll_at_0 em_step_X1[OF s] total_ll_X1[OF s])
  note r = fit_stops_at_first_iteration_within_tol[OF st a b c, unfolded e f]
  show ?thesis
    using r a by (simp add: ncols_X1)
qed

text \<open>
  C4 (as amended). When \<open>max_iter\<close> is at least 1 and all \<open>max_iter\<close> iterations of a run
  of \<open>fit\<close> complete, none of them within the tolerance, \<open>fit\<close> returns without an
  exception, and the model is fitted and holds the parameters of the last M-step and,
  as \<open>trainNll\<close>, the log-likelihood of the last iteration. The line "PPCA did not
  converge within the specified tolerance. You might want to increase the number of
  iterations." is printed exactly when \<open>verbose\<close> is set.
\<close>

theorem fit_exhausted_keeps_last_params:
  fixes L :: "'g lib"
  defines "self1 \<equiv> \<lambda>self X. self\<lparr>data_dim := Some (ncols X)\<rparr>"
  assumes "start_params L (self1 self X) params_init init_method X g = (Inr p0, g1)"
      and "1 \<le> max_iter self"
      and "em_params (e_step L (self1 self X) X) (m_step L (self1 self X) X)
             (nat (max_iter self)) p0 = Some q"
      and "\<forall>j<nat (max_iter self).
             \<not> within_tol (e_step L (self1 self X) X) (m_step L (self1 self X) X)
                 (tol self) NInf j p0"
  shows "fst (fit L self X params_init init_method g) = Inr () \<and>
         fst (snd (fit L self X params_init init_method g)) =
           self\<lparr>data_dim := Some (ncols X), params := Some q,
                trainNll := ll_at (e_step L (self1 self X) X) (m_step L (self1 self X) X)
                              (nat (max_iter self) - 1) p0,
                isFitted := True\<rparr> \<and>
         (Line not_converged_msg
            \<in> set (fst (snd (snd (fit L self X params_init init_method g))))) = verbose self"
proof -
  let ?es = "e_step L (self1 self X) X" and ?ms = "m_step L (self1 self X) X"
  let ?n = "nat (max_iter self)"
  obtain m where m: "?n = Suc m" using assms(3) by (cases ?n) auto
  from em_loop_exhausted[OF assms(4) assms(5), of "verbose self" 0 None "[]"]
  obtain out' where
    r: "em_loop ?es ?ms (verbose self) (tol self) ?n 0 p0 NInf None [] =
          (Inr (q, ll_at ?es ?ms m p0, Exhausted), out')"
    using m by auto
  from em_loop_out[of ?es ?ms "verbose self" "tol self" ?n 0 p0 NInf None "[]"] r
  have "\<forall>x\<in>set out'. \<exists>i a b. x = IterInfo i a b" by auto
  then have no: "Line not_converged_msg \<notin> set out'" by auto
  from assms(4) m obtain l where l: "ll_at ?es ?ms m p0 = Some l"
    using ll_at_defined[of ?es ?ms m p0 q] by auto
  show ?thesis using assms(2) r m l no
    by (simp add: fit_def self1_def)
qed

theorem fit_exhausted_witness:
  "1 \<le> max_iter (gmm1 1 True) \<and>
   fst (fit lib1 (gmm1 1 True) X1 (Some d1) ''kmeans'' ()) = Inr () \<and>
   fst (snd (fit lib1 (gmm1 1 True) X1 (Some d1) ''kmeans'' ())) =
     (gmm1 1 True)\<lparr>data_dim := Some 1, params := Some (Some d1),
        trainNll := Some (Fin (ln c1 + ln c1)), isFitted := True\<rparr> \<and>
   Line not_converged_msg \<in> set (fst (snd (snd (fit lib1 (gmm1 1 True) X1 (Some d1) ''kmeans'' ()))))"
proof -
  let ?s = "(gmm1 1 True)\<lparr>data_dim := Some (ncols X1)\<rparr>"
  let ?es = "e_step lib1 ?s X1"
  let ?ms = "m_step lib1 ?s X1"
  have s: "cls ?s = GMM" "n_components ?s = 1" by (simp_all add: gmm1_simps)
  have st: "start_params lib1 ?s (Some d1) ''kmeans'' X1 () = (Inr (Some d1), ())"
    by (simp add: start_params_def)
  have a: "1 \<le> max_iter (gmm1 1 True)" by (simp add: gmm1_simps)
  have n: "nat (max_iter (gmm1 1 True)) = 1" by (simp add: gmm1_simps)
  have b: "em_params ?es ?ms (nat (max_iter (gmm1 1 True))) (Some d1) = Some (Some d1)"
    by (simp add: n em_step_X1[OF s])
  have c: "\<forall>j<nat (max_iter (gmm1 1 True)).
      \<not> within_tol ?es ?ms (tol (gmm1 1 True)) NInf j (Some d1)"
    by (simp add: n first_iteration_not_within_tol)
  have f: "ll_at ?es ?ms (nat (max_iter (gmm1 1 True)) - 1) (Some d1) = Some (Fin (ln c1 + ln c1))"
    by (simp add: n ll_at_0 total_ll_X1[OF s])
  note r = fit_exhausted_keeps_last_params[OF st a b c, unfolded f]
  show ?thesis
    using r a by (simp add: ncols_X1 gmm1_simps)
qed

text \<open>The claim as stated fails: the same run with \<open>verbose\<close> unset exhausts its single
  iteration and prints nothing.\<close>

theorem fit_exhausted_silent_counterexample:
  "fit lib1 (gmm1 1 False) X1 (Some d1) ''kmeans'' () =
     (Inr (),
      (gmm1 1 False)\<lparr>data_dim := Some 1, params := Some (Some d1),
         trainNll := Some (Fin (ln c1 + ln c1)), isFitted := True\<rparr>,
      [], ())"
proof -
  let ?s = "(gmm1 1 False)\<lparr>data_dim := Some (ncols X1)\<rparr>"
  have s: "cls ?s = GMM" "n_components ?s = 1" by (simp_all add: gmm1_simps)
  show ?thesis
    by (simp add: fit_def start_params_def Let_def gmm1_simps e_step_X1[OF s]
        m_step_X1[OF s(1)] minus_npfloat_def)
      (simp add: ncols_X1)
qed

section \<open>Runs without iterations and unknown initialisation methods\<close>

text \<open>
  C9 (as amended). On a model whose \<open>max_iter\<close> is 0, \<open>fit\<close> runs no iteration and
  raises: no line of an iteration is printed, and \<open>isFitted\<close> and \<open>trainNll\<close> are as
  they were before the call. When the choice of the first parameters returns
  (\<open>params_init\<close> is given, or \<open>_init_params\<close> does not raise), the exception is the
  \<open>UnboundLocalError\<close> of the assignment of \<open>trainNll\<close>, whatever the steps would do;
  \<open>self.params\<close> holds the first parameters, and the "did not converge" line is printed
  exactly when \<open>verbose\<close> is set. Otherwise the exception is that of \<open>_init_params\<close>.
\<close>

theorem fit_without_iterations_is_unbound:
  assumes "max_iter self = 0"
  shows "(\<exists>e. fst (fit L self X params_init init_method g) = Inl e) \<and>
         isFitted (fst (snd (fit L self X params_init init_method g))) = isFitted self \<and>
         trainNll (fst (snd (fit L self X params_init init_method g))) = trainNll self \<and>
         (\<forall>i a b. IterInfo i a b
            \<notin> set (fst (snd (snd (fit L self X params_init init_method g))))) \<and>
         (start_params L (self\<lparr>data_dim := Some (ncols X)\<rparr>) params_init init_method X g
            = (Inr p0, g1) \<longrightarrow>
          fit L self X params_init init_method g =
            (Inl UnboundLocalError,
             self\<lparr>data_dim := Some (ncols X), params := Some p0\<rparr>,
             (if verbose self then [Line not_converged_msg] else []), g1)) \<and>
         (start_params L (self\<lparr>data_dim := Some (ncols X)\<rparr>) params_init init_method X g
            = (Inl e0, g1) \<longrightarrow>
          fit L self X params_init init_method g =
            (Inl e0, self\<lparr>data_dim := Some (ncols X)\<rparr>, [], g1))"
proof -
  obtain r g' where
    s: "start_params L (self\<lparr>data_dim := Some (ncols X)\<rparr>) params_init init_method X g
          = (r, g')"
    by (metis prod.exhaust)
  show ?thesis
  proof (cases r)
    case (Inl e)
    then show ?thesis using s by (simp add: fit_def)
  next
    case (Inr p)
    then show ?thesis using s assms by (simp add: fit_def)
  qed
qed

lemma init_params_X1:
  assumes "cls s = GMM" and "n_components s = 1"
  shows "init_params lib1 s ''kmeans'' X1 () =
     (Inr (Some (no_params\<lparr>mu_list := Some [[Fin 0]], Sigma_list := Some [[[Fin 2]]],
        components := Some [Fin 1]\<rparr>)), ())"
  using assms
  by (simp add: init_params_def lib1_def X1_def Let_def bindE_def mean_axis0_def
      cluster_rows_def cluster_share_def cov_rows_def mean_vec_def minus_npfloat_def)

text \<open>A run on \<open>X1\<close> that takes its first parameters from the clustering.\<close>

theorem fit_without_iterations_witness:
  "max_iter (gmm1 0 True) = 0 \<and>
   fit lib1 (gmm1 0 True) X1 None ''kmeans'' () =
     (Inl UnboundLocalError,
      (gmm1 0 True)\<lparr>data_dim := Some 1,
        params := Some (Some (no_params\<lparr>mu_list := Some [[Fin 0]],
          Sigma_list := Some [[[Fin 2]]], components := Some [Fin 1]\<rparr>))\<rparr>,
      [Line not_converged_msg], ()) \<and>
   isFitted (fst (snd (fit lib1 (gmm1 0 True) X1 None ''kmeans'' ()))) = False"
proof -
  let ?s = "(gmm1 0 True)\<lparr>data_dim := Some (ncols X1)\<rparr>"
  have c: "cls ?s = GMM" "n_components ?s = 1" by (simp_all add: gmm1_simps)
  have m: "max_iter (gmm1 0 True) = 0" by (simp add: gmm1_simps)
  have st: "start_params lib1 ?s None ''kmeans'' X1 () =
     (Inr (Some (no_params\<lparr>mu_list := Some [[Fin 0]], Sigma_list := Some [[[Fin 2]]],
        components := Some [Fin 1]\<rparr>)), ())"
    by (simp add: start_params_def init_params_X1[OF c])
  from fit_without_iterations_is_unbound[OF m, of lib1 X1 None "''kmeans''" "()"] st
  show ?thesis using m by (simp add: gmm1_simps ncols_X1)
qed

text \<open>The claim as stated fails: a model of three components with \<open>max_iter = 0\<close>,
  fitted to the two rows of \<open>X1\<close>, leaves \<open>fit\<close> by the \<open>ValueError\<close> of the clustering,
  before the loop; nothing is printed and \<open>self.params\<close> is not assigned.\<close>

theorem fit_without_iterations_counterexample:
  "fit lib1 (GMM_init GMM 3 (Fin (1 / 1000)) 0 0 True) X1 None ''kmeans'' () =
     (Inl ValueError, (GMM_init GMM 3 (Fin (1 / 1000)) 0 0 True)\<lparr>data_dim := Some 1\<rparr>,
      [], ())"
  by (simp add: fit_def start_params_def init_params_def lib1_def GMM_init_def X1_def
      ncols_def)

text \<open>
  C10 (as amended). When \<open>fit\<close> is called without \<open>params_init\<close> and with an
  \<open>init_method\<close> other than \<^verbatim>\<open>'kmeans'\<close>, \<open>_init_params\<close> returns \<^verbatim>\<open>None\<close>; when moreover
  \<open>max_iter\<close> is at least 1, the first E-step subscripts \<^verbatim>\<open>None\<close> and \<open>fit\<close> raises its
  \<open>TypeError\<close>, for every class; nothing is printed and the model is not fitted by
  the call.
\<close>

theorem fit_unknown_init_method_fails_in_e_step:
  assumes "init_method \<noteq> ''kmeans''" and "1 \<le> max_iter self"
  shows "init_params L (self\<lparr>data_dim := Some (ncols X)\<rparr>) init_method X g = (Inr None, g) \<and>
         e_step L (self\<lparr>data_dim := Some (ncols X)\<rparr>) X None = Inl TypeError \<and>
         fit L self X None init_method g =
           (Inl TypeError, self\<lparr>data_dim := Some (ncols X)\<rparr>, [], g)"
proof -
  obtain n where n: "nat (max_iter self) = Suc n"
    using assms(2) by (cases "nat (max_iter self)") auto
  have e: "e_step L s X None = Inl TypeError" for s
    by (simp add: e_step_def e_step_GMM_def e_step_MPPCA_def e_step_MFA_def
        split: variant.splits)
  show ?thesis using assms(1) n
    by (simp add: fit_def start_params_def init_params_def e)
qed

theorem fit_unknown_init_method_witness:
  "''random'' \<noteq> ''kmeans'' \<and> 1 \<le> max_iter (MFA_init 2 1 (Fin (1 / 1000)) 1000 0 True) \<and>
   fit lib1 (MFA_init 2 1 (Fin (1 / 1000)) 1000 0 True) X1 None ''random'' () =
     (Inl TypeError, (MFA_init 2 1 (Fin (1 / 1000)) 1000 0 True)\<lparr>data_dim := Some 1\<rparr>, [], ())"
  using fit_unknown_init_method_fails_in_e_step[of "''random''"
      "MFA_init 2 1 (Fin (1 / 1000)) 1000 0 True" lib1 X1 "()"]
  by (simp add: MFA_init_def GMM_init_def ncols_X1)

text \<open>The claim as stated fails when \<open>max_iter\<close> is 0: no E-step is entered, and the
  exception is the \<open>UnboundLocalError\<close> of a run without iterations.\<close>

theorem fit_unknown_init_method_counterexample:
  "fit lib1 (gmm1 0 False) X1 None ''random'' () =
     (Inl UnboundLocalError, (gmm1 0 False)\<lparr>data_dim := Some 1, params := Some None\<rparr>,
      [], ())"
  by (simp add: fit_def start_params_def init_params_def gmm1_simps ncols_X1)

section \<open>Array operations by index\<close>

text \<open>The entries of the results of the array operations, for operands of conforming
  shapes with at least one row.\<close>

lemma is_mat_nth: "is_mat N D M \<Longrightarrow> n < N \<Longrightarrow> length (M ! n) = D"
  by (auto simp: is_mat_def list_all_length)

lemma is_mat_length: "is_mat N D M \<Longrightarrow> length M = N"
  by (simp add: is_mat_def)

lemma is_matI: "length M = N \<Longrightarrow> (\<And>n. n < N \<Longrightarrow> length (M ! n) = D) \<Longrightarrow> is_mat N D M"
  by (auto simp: is_mat_def list_all_length)

lemma transpose_mat:
  assumes "is_mat N D M" and "0 < N"
  shows "transpose M = map (\<lambda>j. map (\<lambda>n. M ! n ! j) [0..<N]) [0..<D]"
proof -
  have "transpose M = map (\<lambda>i. map (\<lambda>j. M ! j ! i) [0..<length M]) [0..<D]"
    using assms by (intro transpose_rectangle) (auto simp: is_mat_def list_all_length)
  then show ?thesis using assms by (simp add: is_mat_def)
qed

lemma is_mat_transpose:
  assumes "is_mat N D M" and "0 < N"
  shows "is_mat D N (transpose M)"
  by (simp add: transpose_mat[OF assms] is_mat_def list_all_length)

lemma transpose_nth:
  assumes "is_mat N D M" and "0 < N" and "j < D" and "n < N"
  shows "transpose M ! j ! n = M ! n ! j"
  using assms by (simp add: transpose_mat)

lemma sum_list_upt_sum: "sum_list (map f [0..<N]) = (\<Sum>n<N. f n)"
  for f :: "nat \<Rightarrow> 'a::comm_monoid_add"
  by (simp add: interv_sum_list_conv_sum_set_nat atLeast0LessThan)

lemma sum_list_nth_sum: "sum_list xs = (\<Sum>n<length xs. xs ! n)"
  for xs :: "'a::comm_monoid_add list"
  by (simp add: sum_list_sum_nth atLeast0LessThan)

lemma sum_axis0_nth:
  assumes "is_mat N D M" and "0 < N" and "j < D"
  shows "sum_axis0 M ! j = (\<Sum>n<N. M ! n ! j)"
  using assms by (simp add: sum_axis0_def transpose_mat sum_list_upt_sum)

lemma length_sum_axis0:
  assumes "is_mat N D M" and "0 < N"
  shows "length (sum_axis0 M) = D"
  using assms by (simp add: sum_axis0_def transpose_mat)

lemma scale_rows_mat:
  assumes "is_mat N D M" and "length r = N"
  shows "is_mat N D (scale_rows M r)"
  using assms by (auto simp: is_mat_def scale_rows_def list_all_length)

lemma scale_rows_nth:
  assumes "is_mat N D M" and "length r = N" and "n < N" and "j < D"
  shows "scale_rows M r ! n ! j = M ! n ! j * r ! n"
  using assms by (auto simp: is_mat_def scale_rows_def list_all_length)

lemma weighted_mean_nth:
  assumes "is_mat N D Y" and "0 < N" and "length r = N" and "j < D"
  shows "weighted_mean Y r ! j = (\<Sum>n<N. r ! n * Y ! n ! j) / (\<Sum>n<N. r ! n)"
proof -
  have "sum_axis0 (scale_rows Y r) ! j = (\<Sum>n<N. scale_rows Y r ! n ! j)"
    using assms by (intro sum_axis0_nth scale_rows_mat)
  also have "\<dots> = (\<Sum>n<N. r ! n * Y ! n ! j)"
    using assms by (intro sum.cong) (simp_all add: scale_rows_nth mult.commute)
  finally show ?thesis
    using assms by (simp add: weighted_mean_def vdiv_def length_sum_axis0[OF scale_rows_mat] sum_list_nth_sum)
qed

lemma length_weighted_mean:
  assumes "is_mat N D Y" and "0 < N" and "length r = N"
  shows "length (weighted_mean Y r) = D"
  using assms by (simp add: weighted_mean_def vdiv_def length_sum_axis0[OF scale_rows_mat])

lemma sum_list_map2_sum:
  "length xs = n \<Longrightarrow> length ys = n \<Longrightarrow> sum_list (map2 f xs ys) = (\<Sum>k<n. f (xs ! k) (ys ! k))"
  for f :: "'b \<Rightarrow> 'c \<Rightarrow> 'a::comm_monoid_add"
  by (simp add: sum_list_nth_sum)

lemma dot_nth:
  assumes "is_mat m n A" and "is_mat n p B" and "0 < n" and "i < m" and "j < p"
  shows "dot A B ! i ! j = (\<Sum>k<n. A ! i ! k * B ! k ! j)"
proof -
  have "dot A B ! i ! j = sum_list (map2 (\<lambda>x y. x * y) (A ! i) (transpose B ! j))"
    using assms by (simp add: dot_def is_mat_length transpose_mat)
  also have "\<dots> = (\<Sum>k<n. A ! i ! k * (transpose B ! j) ! k)"
    using assms by (intro sum_list_map2_sum) (simp_all add: is_mat_nth transpose_mat)
  also have "\<dots> = (\<Sum>k<n. A ! i ! k * B ! k ! j)"
    using assms by (intro sum.cong) (simp_all add: transpose_nth)
  finally show ?thesis .
qed

lemma is_mat_dot:
  assumes "is_mat m n A" and "is_mat n p B" and "0 < n"
  shows "is_mat m p (dot A B)"
  using assms(1) by (simp add: dot_def is_mat_def list_all_length transpose_mat[OF assms(2,3)])

lemma msub_nth:
  assumes "is_mat m n A" and "is_mat m n B" and "i < m" and "j < n"
  shows "msub A B ! i ! j = A ! i ! j - B ! i ! j"
  using assms by (simp add: msub_def is_mat_def list_all_length)

lemma is_mat_msub:
  assumes "is_mat m n A" and "is_mat m n B"
  shows "is_mat m n (msub A B)"
  using assms by (simp add: msub_def is_mat_def list_all_length)

lemma weighted_cov_nth:
  assumes "is_mat N D X" and "0 < N" and "length r = N" and "length mu = D" and "i < D" and "j < D"
  shows "weighted_cov X r mu ! i ! j =
     (\<Sum>n<N. r ! n * X ! n ! i * X ! n ! j) / (\<Sum>n<N. r ! n) - mu ! i * mu ! j"
proof -
  have D: "0 < D" using assms by simp
  have s: "is_mat N D (scale_rows X r)" using assms by (intro scale_rows_mat)
  then have t: "is_mat D N (transpose (scale_rows X r))" using assms by (intro is_mat_transpose)
  have d: "is_mat D D (dot (transpose (scale_rows X r)) X)"
    using t assms by (intro is_mat_dot)
  have "dot (transpose (scale_rows X r)) X ! i ! j
      = (\<Sum>n<N. transpose (scale_rows X r) ! i ! n * X ! n ! j)"
    using t assms by (intro dot_nth)
  also have "\<dots> = (\<Sum>n<N. r ! n * X ! n ! i * X ! n ! j)"
    using assms s by (intro sum.cong) (simp_all add: transpose_nth scale_rows_nth mult.commute)
  finally have e: "dot (transpose (scale_rows X r)) X ! i ! j
      = (\<Sum>n<N. r ! n * X ! n ! i * X ! n ! j)" .
  have sd: "is_mat D D (sdiv (dot (transpose (scale_rows X r)) X) (sum_list r))"
    using d by (simp add: sdiv_def is_mat_def list_all_length)
  have o: "is_mat D D (outer mu mu)"
    using assms by (simp add: outer_def is_mat_def list_all_length)
  have "weighted_cov X r mu ! i ! j =
      sdiv (dot (transpose (scale_rows X r)) X) (sum_list r) ! i ! j - outer mu mu ! i ! j"
    using sd o assms by (simp add: weighted_cov_def msub_nth)
  also have "sdiv (dot (transpose (scale_rows X r)) X) (sum_list r) ! i ! j
      = (\<Sum>n<N. r ! n * X ! n ! i * X ! n ! j) / (\<Sum>n<N. r ! n)"
    using d assms e by (simp add: sdiv_def is_mat_def list_all_length sum_list_nth_sum)
  also have "outer mu mu ! i ! j = mu ! i * mu ! j"
    using assms by (simp add: outer_def)
  finally show ?thesis .
qed

lemma column_nth:
  assumes "is_mat N K resp" and "0 < N" and "k < K"
  shows "length (transpose resp ! k) = N"
    and "\<And>n. n < N \<Longrightarrow> transpose resp ! k ! n = resp ! n ! k"
    and "length (transpose resp) = K"
  using assms by (simp_all add: transpose_mat)

lemma mapE_Inr:
  "mapE f xs = Inr ys \<Longrightarrow> length ys = length xs \<and> (\<forall>i<length xs. f (xs ! i) = Inr (ys ! i))"
proof (induction xs arbitrary: ys)
  case Nil
  then show ?case by simp
next
  case (Cons x xs)
  from Cons.prems obtain y ys' where y: "f x = Inr y" and ys': "mapE f xs = Inr ys'" and e: "ys = y # ys'"
    by (auto simp: bindE_def split: sum.splits)
  from Cons.IH[OF ys'] show ?case using y e by (auto simp: nth_Cons')
qed

lemma resid_mean_nth:
  assumes "is_mat N D X" and "0 < N" and "length r = N" and "is_mat D L W" and "0 < L"
      and "is_mat N L z" and "j < D"
  shows "resid_mean X r W z ! j =
     (\<Sum>n<N. r ! n * (X ! n ! j - (\<Sum>l<L. W ! j ! l * z ! n ! l))) / (\<Sum>n<N. r ! n)"
proof -
  have D: "0 < D" using assms by simp
  have t: "is_mat L D (transpose W)" using assms(4) D by (rule is_mat_transpose)
  have d: "is_mat N D (dot z (transpose W))" using assms(6) t assms(5) by (rule is_mat_dot)
  have y: "is_mat N D (msub X (dot z (transpose W)))" using assms(1) d by (rule is_mat_msub)
  have e: "msub X (dot z (transpose W)) ! n ! j = X ! n ! j - (\<Sum>l<L. W ! j ! l * z ! n ! l)"
    if "n < N" for n
  proof -
    have "dot z (transpose W) ! n ! j = (\<Sum>l<L. z ! n ! l * transpose W ! l ! j)"
      using assms(6) t assms(5) that assms(7) by (rule dot_nth)
    also have "\<dots> = (\<Sum>l<L. W ! j ! l * z ! n ! l)"
      using assms D by (intro sum.cong) (simp_all add: transpose_nth mult.commute)
    finally show ?thesis using msub_nth[OF assms(1) d that assms(7)] by simp
  qed
  have "resid_mean X r W z ! j =
      (\<Sum>n<N. r ! n * msub X (dot z (transpose W)) ! n ! j) / (\<Sum>n<N. r ! n)"
    unfolding resid_mean_def using y assms(2,3,7) by (rule weighted_mean_nth)
  also have "(\<Sum>n<N. r ! n * msub X (dot z (transpose W)) ! n ! j) =
      (\<Sum>n<N. r ! n * (X ! n ! j - (\<Sum>l<L. W ! j ! l * z ! n ! l)))"
    by (intro sum.cong) (simp_all add: e)
  finally show ?thesis .
qed

lemma lt2: "(\<forall>j<2. P j) = (P 0 \<and> P (1::nat))"
  by (auto simp: less_2_cases_iff)

lemma sum2: "(\<Sum>n<2. f n) = f 0 + f (1::nat)" for f :: "nat \<Rightarrow> npfloat"
  by (simp add: numeral_2_eq_2)

section \<open>The M-step of the full-covariance model\<close>

text \<open>
  C6. For data \<open>X\<close> of \<open>N > 0\<close> rows and \<open>D\<close> columns and responsibilities \<open>r\<close> of shape
  \<open>(N, K)\<close>, the M-step of the class \<open>GMM\<close> returns, for every component \<open>k\<close>, the mean
  \<open>(\<Sum>n. r[n][k] * x[n]) / R\<close> and the covariance
  \<open>(\<Sum>n. r[n][k] * x[n] * x[n]\<^sup>t) / R - mean * mean\<^sup>t\<close>, entry by entry, where
  \<open>R = \<Sum>n. r[n][k]\<close>. (When \<open>R\<close> is zero both sides are the same not-a-number or
  infinity.)
\<close>

theorem full_m_step_mean_and_covariance:
  fixes L :: "'g lib"
  assumes "cls self = GMM"
      and "is_mat N D X" and "0 < N"
      and "is_mat N K (responsibilities ss)"
      and "k < K"
  shows "\<exists>p' mus Sigmas.
     m_step L self X ss p = Inr p' \<and> mu_list p' = Some mus \<and> Sigma_list p' = Some Sigmas \<and>
     length mus = K \<and> length Sigmas = K \<and>
     (\<forall>j<D. mus ! k ! j =
        (\<Sum>n<N. responsibilities ss ! n ! k * X ! n ! j)
          / (\<Sum>n<N. responsibilities ss ! n ! k)) \<and>
     (\<forall>i<D. \<forall>j<D. Sigmas ! k ! i ! j =
        (\<Sum>n<N. responsibilities ss ! n ! k * X ! n ! i * X ! n ! j)
            / (\<Sum>n<N. responsibilities ss ! n ! k)
          - mus ! k ! i * mus ! k ! j)"
proof -
  let ?resp = "responsibilities ss"
  let ?r = "transpose ?resp ! k"
  note c = column_nth[OF assms(4,3,5)]
  have r: "(\<Sum>n<N. ?r ! n * f n) = (\<Sum>n<N. ?resp ! n ! k * f n)" for f :: "nat \<Rightarrow> npfloat"
    by (intro sum.cong) (simp_all add: c(2))
  have r0: "(\<Sum>n<N. ?r ! n) = (\<Sum>n<N. ?resp ! n ! k)"
    by (intro sum.cong) (simp_all add: c(2))
  have m: "weighted_mean X ?r ! j =
      (\<Sum>n<N. ?resp ! n ! k * X ! n ! j) / (\<Sum>n<N. ?resp ! n ! k)" if "j < D" for j
    using weighted_mean_nth[OF assms(2,3) c(1) that] by (simp add: r r0)
  have lm: "length (weighted_mean X ?r) = D"
    using assms c by (intro length_weighted_mean)
  have s: "weighted_cov X ?r (weighted_mean X ?r) ! i ! j =
      (\<Sum>n<N. ?resp ! n ! k * X ! n ! i * X ! n ! j) / (\<Sum>n<N. ?resp ! n ! k)
        - weighted_mean X ?r ! i * weighted_mean X ?r ! j" if "i < D" and "j < D" for i j
    using weighted_cov_nth[OF assms(2,3) c(1) lm that]
      r[of "\<lambda>n. X ! n ! i * X ! n ! j"] by (simp add: r0 mult.assoc)
  show ?thesis
    using assms(1,5) c(3) m s
    by (simp add: m_step_def m_step_GMM_def Let_def no_params_def)
qed

theorem full_m_step_witness:
  "is_mat 2 2 X2 \<and> is_mat 2 2 (responsibilities ss2) \<and>
   (\<exists>p' mus Sigmas.
      m_step lib1 (GMM_init GMM 2 (Fin (1 / 1000)) 1000 0 True) X2 ss2 None = Inr p' \<and>
      mu_list p' = Some mus \<and> Sigma_list p' = Some Sigmas \<and>
      mus ! 1 ! 0 = Fin (9 / 5) \<and> mus ! 1 ! 1 = Fin (14 / 5) \<and>
      Sigmas ! 1 ! 0 ! 1 = Fin (24 / 25))"
proof -
  have a: "cls (GMM_init GMM 2 (Fin (1 / 1000)) 1000 0 True) = GMM"
    by (simp add: GMM_init_def)
  have b: "is_mat 2 2 X2" by (simp add: is_mat_def X2_def)
  have c: "is_mat 2 2 (responsibilities ss2)" by (simp add: is_mat_def ss2_def)
  from full_m_step_mean_and_covariance[OF a b _ c, of 1 lib1 None]
  obtain p' mus Sigmas where
    "m_step lib1 (GMM_init GMM 2 (Fin (1 / 1000)) 1000 0 True) X2 ss2 None = Inr p'"
    "mu_list p' = Some mus" "Sigma_list p' = Some Sigmas"
    "mus ! 1 ! 0 = Fin (9 / 5)" "mus ! 1 ! 1 = Fin (14 / 5)"
    "Sigmas ! 1 ! 0 ! 1 = Fin (24 / 25)"
    by (auto simp: lt2 sum2 X2_def ss2_def minus_npfloat_def)
  then show ?thesis using b c by blast
qed

section \<open>The mean of the low-rank models\<close>

text \<open>
  C7. When the M-step of the class \<open>MPPCA\<close> or \<open>MFA\<close> returns, the mean of every
  component \<open>k\<close> is \<open>(\<Sum>n. r[n][k] * (x[n] - W * z[n])) / R\<close>, entry by entry, with \<open>W\<close>
  the loading matrix of the component in the previous parameters, \<open>z[n]\<close> the latent
  mean of row \<open>n\<close> from the E-step and \<open>R = \<Sum>n. r[n][k]\<close>: the weighted mean of the
  residuals, not that of the data. (\<open>X\<close> has \<open>N > 0\<close> rows and \<open>D\<close> columns, \<open>r\<close> has shape
  \<open>(N, K)\<close>, \<open>W\<close> shape \<open>(D, l)\<close> with \<open>l > 0\<close> and \<open>z\<close> shape \<open>(N, l)\<close>.)
\<close>

theorem low_rank_m_step_mean:
  fixes L :: "'g lib"
  assumes "cls self = MPPCA \<or> cls self = MFA"
      and "m_step L self X ss (Some d0) = Inr p'"
      and "W_list d0 = Some Ws" and "z_list ss = Some zs" and "zz_list ss = Some zzs"
      and "is_mat N D X" and "0 < N" and "is_mat N K (responsibilities ss)"
      and "k < K" and "k < length Ws" and "k < length zs" and "k < length zzs"
      and "is_mat D l (Ws ! k)" and "0 < l" and "is_mat N l (zs ! k)"
  shows "\<exists>mus. mu_list p' = Some mus \<and> k < length mus \<and>
     (\<forall>j<D. mus ! k ! j =
        (\<Sum>n<N. responsibilities ss ! n ! k
             * (X ! n ! j - (\<Sum>a<l. Ws ! k ! j ! a * zs ! k ! n ! a)))
          / (\<Sum>n<N. responsibilities ss ! n ! k))"
proof -
  let ?resp = "responsibilities ss"
  let ?r = "transpose ?resp ! k"
  let ?xs = "zip (transpose ?resp) (zip Ws (zip zs zzs))"
  note c = column_nth[OF assms(8,7,9)]
  have kx: "k < length ?xs" using assms c(3) by simp
  have xk: "?xs ! k = (?r, Ws ! k, zs ! k, zzs ! k)" using assms c(3) by simp
  have "\<exists>mus. mu_list p' = Some mus \<and> k < length mus \<and>
      mus ! k = resid_mean X ?r (Ws ! k) (zs ! k)"
  proof (cases "cls self = MPPCA")
    case True
    let ?f = "\<lambda>(r, W_old, z, zz).
                   let mu = resid_mean X r W_old z in
                   bindE (new_W L X r mu z zz) (\<lambda>W.
                   let dev = sub_row X mu;
                       s1 = diag_of (dot dev (transpose dev));
                       s2 = diag_of (smul (Fin (- 2))
                              (dot (dot z (transpose W)) (transpose dev)));
                       s3 = map (\<lambda>Z. trace (mmul_elem Z (dot (transpose W) W))) zz
                   in bindE (getattr (data_dim self)) (\<lambda>D.
                      Inr (mu, W,
                        sum_list (map2 (\<lambda>rn s. rn * s) r
                            (map2 (\<lambda>a b. a + b) (map2 (\<lambda>a b. a + b) s1 s2) s3))
                          / (Fin (real D) * sum_list r))))"
    from assms(2) True obtain new where n: "mapE ?f ?xs = Inr new"
      and p: "mu_list p' = Some (map (\<lambda>(mu, W, s). mu) new)"
      using assms(3,4,5)
      by (auto simp: m_step_def m_step_MPPCA_def getitem_def bindE_def Let_def no_params_def
          split: sum.splits)
    from mapE_Inr[OF n] kx have l: "length new = length ?xs" and f: "?f (?xs ! k) = Inr (new ! k)"
      by auto
    from f have "fst (new ! k) = resid_mean X ?r (Ws ! k) (zs ! k)"
      by (auto simp: xk bindE_def Let_def split: sum.splits) (metis fst_conv)
    moreover have "(\<lambda>(mu, W, s). mu) = (fst :: vec \<times> mat \<times> npfloat \<Rightarrow> vec)" by auto
    ultimately show ?thesis using l p kx by simp
  next
    case False
    then have F: "cls self = MFA" using assms(1) by simp
    let ?f = "\<lambda>(r, W_old, z, zz).
                   let mu = resid_mean X r W_old z in
                   bindE (new_W L X r mu z zz) (\<lambda>W.
                   let dev = sub_row X mu;
                       s1 = dot (transpose (scale_rows dev r)) dev;
                       s2 = dot W (dot (transpose (scale_rows z r)) dev)
                   in Inr (mu, W, sdiv (diag_mat (diag_of (msub s1 s2))) (sum_list r)))"
    from assms(2) F obtain new where n: "mapE ?f ?xs = Inr new"
      and p: "mu_list p' = Some (map (\<lambda>(mu, W, P). mu) new)"
      using assms(3,4,5)
      by (auto simp: m_step_def m_step_MFA_def getitem_def bindE_def Let_def no_params_def
          split: sum.splits)
    from mapE_Inr[OF n] kx have l: "length new = length ?xs" and f: "?f (?xs ! k) = Inr (new ! k)"
      by auto
    from f have "fst (new ! k) = resid_mean X ?r (Ws ! k) (zs ! k)"
      by (auto simp: xk bindE_def Let_def split: sum.splits) (metis fst_conv)
    moreover have "(\<lambda>(mu, W, P). mu) = (fst :: vec \<times> mat \<times> mat \<Rightarrow> vec)" by auto
    ultimately show ?thesis using l p kx by simp
  qed
  then obtain mus where mus: "mu_list p' = Some mus" "k < length mus"
      "mus ! k = resid_mean X ?r (Ws ! k) (zs ! k)" by blast
  have "resid_mean X ?r (Ws ! k) (zs ! k) ! j =
     (\<Sum>n<N. ?resp ! n ! k * (X ! n ! j - (\<Sum>a<l. Ws ! k ! j ! a * zs ! k ! n ! a)))
       / (\<Sum>n<N. ?resp ! n ! k)" if "j < D" for j
  proof -
    have "resid_mean X ?r (Ws ! k) (zs ! k) ! j =
       (\<Sum>n<N. ?r ! n * (X ! n ! j - (\<Sum>a<l. Ws ! k ! j ! a * zs ! k ! n ! a)))
         / (\<Sum>n<N. ?r ! n)"
      using assms(6,7) c(1) assms(13,14,15) that by (rule resid_mean_nth)
    also have "(\<Sum>n<N. ?r ! n * (X ! n ! j - (\<Sum>a<l. Ws ! k ! j ! a * zs ! k ! n ! a))) =
        (\<Sum>n<N. ?resp ! n ! k * (X ! n ! j - (\<Sum>a<l. Ws ! k ! j ! a * zs ! k ! n ! a)))"
      by (intro sum.cong) (simp_all add: c(2))
    also have "(\<Sum>n<N. ?r ! n) = (\<Sum>n<N. ?resp ! n ! k)"
      by (intro sum.cong) (simp_all add: c(2))
    finally show ?thesis .
  qed
  then show ?thesis using mus by simp
qed

lemma m_step_MPPCA_X2:
  "m_step lib1 (low_rank2 MPPCA) X2 ss3 (Some d3) =
     Inr \<lparr>mu_list = Some [[Fin (1 / 2), Fin 3]], components = Some [Fin 1],
           Sigma_list = None, sigma_sq_list = Some [Fin (113 / 112)], Psi_list = None,
           W_list = Some [[[Fin (11 / 14)], [Fin (1 / 7)]]]\<rparr>"
  by (simp add: m_step_def m_step_MPPCA_def low_rank2_def MPPCA_init_def GMM_init_def
      ss3_def d3_def getitem_def getattr_def bindE_def Let_def resid_mean_def
      weighted_mean_def new_W_def lib1_def inv1_def X2_def msub_def dot_def vdiv_def
      sum_axis0_def scale_rows_def sub_row_def sum_mats_def diag_of_def ncols_def smul_def
      mmul_elem_def trace_def mean_axis0_def minus_npfloat_def no_params_def)

lemma m_step_MFA_X2:
  "m_step lib1 (low_rank2 MFA) X2 ss3 (Some d3) =
     Inr \<lparr>mu_list = Some [[Fin (1 / 2), Fin 3]], components = Some [Fin 1],
           Sigma_list = None, sigma_sq_list = None,
           Psi_list = Some [[[Fin (61 / 56), Fin 0], [Fin 0, Fin (13 / 14)]]],
           W_list = Some [[[Fin (11 / 14)], [Fin (1 / 7)]]]\<rparr>"
  by (simp add: m_step_def m_step_MFA_def low_rank2_def MFA_init_def GMM_init_def
      ss3_def d3_def getitem_def getattr_def bindE_def Let_def resid_mean_def
      weighted_mean_def new_W_def lib1_def inv1_def X2_def msub_def dot_def vdiv_def
      sum_axis0_def scale_rows_def sub_row_def sum_mats_def diag_of_def diag_mat_def sdiv_def
      ncols_def smul_def mmul_elem_def trace_def mean_axis0_def minus_npfloat_def
      no_params_def zero_npfloat_def)

text \<open>On \<open>X2\<close> the residuals are \<open>(0, 2)\<close> and \<open>(1, 4)\<close>, and their mean is \<open>(1/2, 3)\<close>; the
  mean of the data is \<open>(2, 3)\<close>.\<close>

theorem low_rank_m_step_mean_witness:
  "is_mat 2 2 X2 \<and> is_mat 2 1 (responsibilities ss3) \<and>
   (\<exists>p' mus. m_step lib1 (low_rank2 MPPCA) X2 ss3 (Some d3) = Inr p' \<and>
      mu_list p' = Some mus \<and> mus ! 0 ! 0 = Fin (1 / 2) \<and> mus ! 0 ! 1 = Fin 3) \<and>
   (\<exists>p' mus. m_step lib1 (low_rank2 MFA) X2 ss3 (Some d3) = Inr p' \<and>
      mu_list p' = Some mus \<and> mus ! 0 ! 0 = Fin (1 / 2) \<and> mus ! 0 ! 1 = Fin 3)"
proof -
  have b: "is_mat 2 2 X2" by (simp add: is_mat_def X2_def)
  have c: "is_mat 2 1 (responsibilities ss3)" by (simp add: is_mat_def ss3_def)
  have w: "W_list d3 = Some [[[Fin 1], [Fin 0]]]" by (simp add: d3_def)
  have z: "z_list ss3 = Some [[[Fin 1], [Fin 2]]]" by (simp add: ss3_def)
  have zz: "zz_list ss3 = Some [[[[Fin 2]], [[Fin 5]]]]" by (simp add: ss3_def)
  have k: "cls (low_rank2 c) = MPPCA \<or> cls (low_rank2 c) = MFA" for c
    by (simp add: low_rank2_def MPPCA_init_def MFA_init_def GMM_init_def)
  have e: "(\<Sum>a<Suc 0. f a) = f 0" for f :: "nat \<Rightarrow> npfloat" by simp
  from low_rank_m_step_mean[OF k m_step_MPPCA_X2 w z zz b _ c, of 0 1]
  have "\<exists>mus. Some [[Fin (1 / 2), Fin 3]] = Some mus \<and>
      mus ! 0 ! 0 = Fin (1 / 2) \<and> mus ! 0 ! 1 = Fin 3"
    by (simp add: is_mat_def lt2 sum2 e X2_def ss3_def minus_npfloat_def)
  moreover from low_rank_m_step_mean[OF k m_step_MFA_X2 w z zz b _ c, of 0 1]
  have "\<exists>mus. Some [[Fin (1 / 2), Fin 3]] = Some mus \<and>
      mus ! 0 ! 0 = Fin (1 / 2) \<and> mus ! 0 ! 1 = Fin 3"
    by (simp add: is_mat_def lt2 sum2 e X2_def ss3_def minus_npfloat_def)
  ultimately show ?thesis using b c
    by (simp add: m_step_MPPCA_X2 m_step_MFA_X2)
qed

section \<open>The weights\<close>

lemma plus_is_fin: "is_fin (x + y) \<Longrightarrow> is_fin x \<and> is_fin y"
  by (cases x; cases y; simp)

lemma sum_list_is_fin: "is_fin (sum_list xs) \<Longrightarrow> list_all is_fin xs"
  by (induction xs) (auto dest: plus_is_fin)

lemma is_fin_map_Fin: "list_all is_fin xs \<Longrightarrow> \<exists>as. xs = map Fin as"
proof (induction xs)
  case Nil
  then show ?case by simp
next
  case (Cons x xs)
  then obtain as where "xs = map Fin as" by auto
  moreover from Cons.prems obtain a where "x = Fin a" by (cases x) auto
  ultimately have "x # xs = map Fin (a # as)" by simp
  then show ?case by (rule exI)
qed

lemma sum_list_map_Fin: "sum_list (map Fin as) = Fin (sum_list as)"
  by (induction as) (simp_all add: zero_npfloat_def)

lemma sum_list_divide_real: "sum_list (map (\<lambda>a. a / s) as) = sum_list as / (s::real)"
  by (induction as) (simp_all add: add_divide_distrib)

lemma np_log_is_fin: "is_fin (np_log x) \<Longrightarrow> \<exists>s. x = Fin s \<and> 0 < s"
  by (cases x) (auto split: if_splits)

text \<open>A row with a finite log-likelihood is normalised to a finite row of sum 1.\<close>

lemma normalised_row:
  assumes "is_fin (np_log (sum_list row))"
  shows "\<exists>as. vdiv row (sum_list row) = map Fin as \<and> sum_list as = 1 \<and> length as = length row"
proof -
  from np_log_is_fin[OF assms] obtain s where s: "sum_list row = Fin s" "0 < s" by blast
  then have "list_all is_fin row" by (intro sum_list_is_fin) simp
  then obtain bs where bs: "row = map Fin bs" using is_fin_map_Fin by blast
  then have sb: "sum_list bs = s" using s by (simp add: sum_list_map_Fin)
  have "vdiv row (sum_list row) = map Fin (map (\<lambda>b. b / s) bs)"
    using s bs by (simp add: vdiv_def)
  moreover have "sum_list (map (\<lambda>b. b / s) bs) = 1"
    using sb s by (simp add: sum_list_divide_real)
  ultimately show ?thesis using bs by (intro exI[of _ "map (\<lambda>b. b / s) bs"]) simp
qed

lemma normalise_alt: "normalise r = map (\<lambda>row. vdiv row (sum_list row)) r"
  by (simp add: normalise_def Let_def zip_map2 zip_same_conv_map)

lemma normalise_mat: "is_mat N K r \<Longrightarrow> is_mat N K (normalise r)"
  by (simp add: normalise_alt is_mat_def list_all_length vdiv_def)

lemma normalised_rows:
  assumes "list_all is_fin (sample_ll_of r)"
  shows "\<exists>A. normalise r = map (map Fin) A \<and> list_all (\<lambda>as. sum_list as = 1) A"
  using assms
proof (induction r)
  case Nil
  then show ?case by (simp add: normalise_alt)
next
  case (Cons row r)
  then obtain A where A: "normalise r = map (map Fin) A" "list_all (\<lambda>as. sum_list as = 1) A"
    by (auto simp: sample_ll_of_def)
  from Cons.prems have "is_fin (np_log (sum_list row))" by (simp add: sample_ll_of_def)
  from normalised_row[OF this] obtain as where
    as: "vdiv row (sum_list row) = map Fin as" "sum_list as = 1" by blast
  have "normalise (row # r) = map (map Fin) (as # A)"
    using A as by (simp add: normalise_alt)
  then show ?case using A as by (intro exI[of _ "as # A"]) simp
qed

lemma sum_list_map_Fin': "sum_list (map (\<lambda>x. Fin (f x)) xs) = Fin (sum_list (map f xs))"
  by (induction xs) (simp_all add: zero_npfloat_def)

text \<open>The means of the columns of a finite matrix whose rows sum to 1 sum to 1.\<close>

lemma mean_axis0_rows_sum_1:
  assumes "is_mat N K A" and "0 < N" and "list_all (\<lambda>as. sum_list as = (1::real)) A"
  shows "sum_list (mean_axis0 (map (map Fin) A)) = 1"
proof -
  have t: "transpose A = map (\<lambda>j. map (\<lambda>n. A ! n ! j) [0..<N]) [0..<K]"
    using assms by (intro transpose_mat)
  have "mean_axis0 (map (map Fin) A) =
      map (\<lambda>c. sum_list (map Fin c) / Fin (real N)) (transpose A)"
    using assms by (simp add: mean_axis0_def transpose_map_map is_mat_def comp_def)
  also have "\<dots> = map (\<lambda>c. Fin (sum_list c / real N)) (transpose A)"
    using assms by (simp add: sum_list_map_Fin)
  finally have "sum_list (mean_axis0 (map (map Fin) A)) =
      Fin (sum_list (map (\<lambda>c. sum_list c / real N) (transpose A)))"
    by (simp only: sum_list_map_Fin')
  also have "sum_list (map (\<lambda>c. sum_list c / real N) (transpose A)) =
      sum_list (map sum_list (transpose A)) / real N"
    using sum_list_divide_real[of "real N" "map sum_list (transpose A)"] by (simp add: comp_def)
  also have "sum_list (map sum_list (transpose A)) = (\<Sum>j<K. \<Sum>n<N. A ! n ! j)"
    by (simp add: t sum_list_upt_sum comp_def)
  also have "\<dots> = (\<Sum>n<N. \<Sum>j<K. A ! n ! j)"
    by (rule sum.swap)
  also have "\<dots> = (\<Sum>n<N. 1)"
  proof (intro sum.cong refl)
    fix n assume "n \<in> {..<N}"
    then have n: "n < N" by simp
    then have "length (A ! n) = K" "sum_list (A ! n) = 1"
      using assms by (auto simp: is_mat_def list_all_length)
    then show "(\<Sum>j<K. A ! n ! j) = 1"
      using sum_list_nth_sum[of "A ! n"] by simp
  qed
  finally show ?thesis using assms(2) by (simp add: one_npfloat_def)
qed

lemma mean_axis0_nth:
  assumes "is_mat N K M" and "0 < N"
  shows "length (mean_axis0 M) = K"
    and "\<And>k. k < K \<Longrightarrow> mean_axis0 M ! k = (\<Sum>n<N. M ! n ! k) / Fin (real N)"
  using assms by (simp_all add: mean_axis0_def transpose_mat[OF assms] sum_list_upt_sum is_mat_def)

text \<open>What the E-step of every class returns, and the weights of every M-step.\<close>

lemma weighted_mat:
  "\<exists>K'. is_mat N K' (weighted (fill_columns N K cols) w)"
  by (intro exI[of _ "min (length cols + (K - length cols)) (length w)"])
     (simp add: weighted_def fill_columns_def is_mat_def list_all_length)

lemma e_step_result:
  assumes "e_step L self X p = Inr (ss, sample_ll)"
  shows "\<exists>r K'. is_mat (length X) K' r \<and> responsibilities ss = normalise r \<and> sample_ll = sample_ll_of r"
proof -
  have "\<exists>cols w. responsibilities ss = normalise (weighted (fill_columns (length X) (n_components self) cols) w)
      \<and> sample_ll = sample_ll_of (weighted (fill_columns (length X) (n_components self) cols) w)"
    using assms
    by (cases "cls self")
      (auto simp: e_step_def e_step_GMM_def e_step_MPPCA_def e_step_MFA_def bindE_def Let_def
        split: option.splits sum.splits intro!: exI)
  then show ?thesis using weighted_mat by metis
qed

lemma m_step_components:
  assumes "m_step L self X ss p = Inr p'"
  shows "components p' = Some (mean_axis0 (responsibilities ss))"
  using assms
  by (cases "cls self")
    (auto simp: m_step_def m_step_GMM_def m_step_Spherical_def m_step_Diagonal_def
      m_step_MPPCA_def m_step_MFA_def bindE_def Let_def no_params_def
      split: option.splits sum.splits list.splits)

text \<open>
  C5 (as amended). For every class, on data with at least one row, each weight that
  the M-step returns is the mean of the component's column of the responsibilities
  of the E-step. When moreover every row of the data has a finite log-likelihood in
  that E-step (its weighted densities are finite with a positive sum), the
  responsibilities of every row sum to 1 and the weights sum to 1.
\<close>

theorem m_step_weights:
  fixes L :: "'g lib"
  assumes "X \<noteq> []"
      and "e_step L self X p = Inr (ss, sample_ll)"
      and "m_step L self X ss p = Inr p'"
  shows "\<exists>w. components p' = Some w \<and>
           (\<forall>k<length w. w ! k =
              (\<Sum>n<length X. responsibilities ss ! n ! k) / Fin (real (length X))) \<and>
           (list_all is_fin sample_ll \<longrightarrow> sum_list w = 1)"
proof -
  let ?N = "length X"
  have N: "0 < ?N" using assms(1) by simp
  from e_step_result[OF assms(2)] obtain r K' where
    r: "is_mat ?N K' r" "responsibilities ss = normalise r" "sample_ll = sample_ll_of r"
    by blast
  have m: "is_mat ?N K' (responsibilities ss)" using r by (simp add: normalise_mat)
  note c = m_step_components[OF assms(3)]
  note a = mean_axis0_nth[OF m N]
  have "sum_list (mean_axis0 (responsibilities ss)) = 1" if "list_all is_fin sample_ll"
  proof -
    from that r normalised_rows obtain A where
      A: "normalise r = map (map Fin) A" "list_all (\<lambda>as. sum_list as = 1) A"
      by blast
    have "is_mat ?N K' A"
      using m r(2) A(1) by (auto simp: is_mat_def list_all_length dest: arg_cong[of _ _ length])
    from mean_axis0_rows_sum_1[OF this N A(2)] show ?thesis using r A by simp
  qed
  then show ?thesis using c a by simp
qed

lemma ab4_pos: "0 < a4" "0 < b4"
  by (simp_all add: a4_def b4_def)

lemma gauss1_pdf_d4:
  "gauss1_pdf [[Fin (- 1)], [Fin 1]] [Fin (- 1)] [[Fin 1]] = Inr [Fin a4, Fin b4]"
  "gauss1_pdf [[Fin (- 1)], [Fin 1]] [Fin 1] [[Fin 1]] = Inr [Fin b4, Fin a4]"
  by (simp_all add: gauss1_pdf_def bindE_def a4_def b4_def)

lemma e_step_d4:
  "e_step lib1 (GMM_init GMM 2 (Fin (1 / 1000)) 1000 0 True) X1 (Some d4) =
     Inr (\<lparr>responsibilities =
             normalise [[Fin (a4 / 2), Fin (b4 / 2)], [Fin (b4 / 2), Fin (a4 / 2)]],
           z_list = None, zz_list = None\<rparr>,
          [Fin (ln (a4 / 2 + b4 / 2)), Fin (ln (b4 / 2 + a4 / 2))])"
  using ab4_pos
  by (simp add: e_step_def e_step_GMM_def d4_def no_params_def getitem_def GMM_init_def
      bindE_def params_to_Sigma_def pdf_columns_def lib1_def gauss1_pdf_d4 fill_columns_def
      weighted_def sample_ll_of_def Let_def X1_def numeral_2_eq_2)

theorem m_step_weights_witness:
  "X1 \<noteq> [] \<and>
   (\<exists>ss sample_ll p' w.
      e_step lib1 (GMM_init GMM 2 (Fin (1 / 1000)) 1000 0 True) X1 (Some d4)
        = Inr (ss, sample_ll) \<and>
      list_all is_fin sample_ll \<and>
      m_step lib1 (GMM_init GMM 2 (Fin (1 / 1000)) 1000 0 True) X1 ss (Some d4) = Inr p' \<and>
      components p' = Some w \<and> sum_list w = 1)"
proof -
  let ?m = "GMM_init GMM 2 (Fin (1 / 1000)) 1000 0 True"
  let ?ss = "\<lparr>responsibilities =
      normalise [[Fin (a4 / 2), Fin (b4 / 2)], [Fin (b4 / 2), Fin (a4 / 2)]],
      z_list = None, zz_list = None\<rparr>"
  let ?ll = "[Fin (ln (a4 / 2 + b4 / 2)), Fin (ln (b4 / 2 + a4 / 2))]"
  have x: "X1 \<noteq> []" by (simp add: X1_def)
  obtain p' where p': "m_step lib1 ?m X1 ?ss (Some d4) = Inr p'"
    by (simp add: m_step_def m_step_GMM_def GMM_init_def Let_def)
  have f: "list_all is_fin ?ll" by simp
  from m_step_weights[OF x e_step_d4 p'] f
  obtain w where "components p' = Some w" "sum_list w = 1" by auto
  then show ?thesis using x e_step_d4 p' f by blast
qed

lemma e_step_dz:
  assumes "cls s = GMM" and "n_components s = 1"
  shows "e_step lib1 s X1 (Some dz) =
     Inr (\<lparr>responsibilities = [[NaN], [NaN]], z_list = None, zz_list = None\<rparr>,
          [NInf, NInf])"
  using c1_pos assms
  by (simp add: e_step_def e_step_GMM_def dz_def d1_def no_params_def getitem_def
      bindE_def params_to_Sigma_def pdf_columns_def lib1_def gauss1_pdf_X1
      fill_columns_def weighted_def normalise_def sample_ll_of_def vdiv_def Let_def
      X1_def[symmetric])
    (simp add: X1_def)

lemma m_step_dz:
  assumes "cls s = GMM"
  shows "m_step lib1 s X1
       \<lparr>responsibilities = [[NaN], [NaN]], z_list = None, zz_list = None\<rparr> (Some dz) =
     Inr \<lparr>mu_list = Some [[NaN]], components = Some [NaN], Sigma_list = Some [[[NaN]]],
           sigma_sq_list = None, Psi_list = None, W_list = None\<rparr>"
  using assms
  by (simp add: m_step_def m_step_GMM_def no_params_def mean_axis0_def
      weighted_mean_def weighted_cov_def vdiv_def sum_axis0_def scale_rows_def X1_def
      msub_def sdiv_def dot_def outer_def minus_npfloat_def Let_def)

text \<open>The claim as stated fails: from parameters whose weight is 0 (passed to \<open>fit\<close> as
  \<open>params_init\<close>), every row sum of the E-step is zero, the responsibilities are \<open>0/0\<close>,
  and the weight that the M-step returns is not-a-number. A run of \<open>fit\<close> with one
  iteration leaves it on the fitted model.\<close>

theorem m_step_weights_counterexample:
  "e_step lib1 (gmm1 1 False) X1 (Some dz) =
     Inr (\<lparr>responsibilities = [[NaN], [NaN]], z_list = None, zz_list = None\<rparr>,
          [NInf, NInf]) \<and>
   m_step lib1 (gmm1 1 False) X1
       \<lparr>responsibilities = [[NaN], [NaN]], z_list = None, zz_list = None\<rparr> (Some dz) =
     Inr \<lparr>mu_list = Some [[NaN]], components = Some [NaN], Sigma_list = Some [[[NaN]]],
           sigma_sq_list = None, Psi_list = None, W_list = None\<rparr> \<and>
   sum_list [NaN] \<noteq> (1::npfloat) \<and>
   fit lib1 (gmm1 1 False) X1 (Some dz) ''kmeans'' () =
     (Inr (),
      (gmm1 1 False)\<lparr>data_dim := Some 1,
         params := Some (Some \<lparr>mu_list = Some [[NaN]], components = Some [NaN],
           Sigma_list = Some [[[NaN]]], sigma_sq_list = None, Psi_list = None,
           W_list = None\<rparr>),
         trainNll := Some NInf, isFitted := True\<rparr>,
      [], ())"
proof -
  let ?s = "(gmm1 1 False)\<lparr>data_dim := Some (ncols X1)\<rparr>"
  have s: "cls ?s = GMM" "n_components ?s = 1" by (simp_all add: gmm1_simps)
  have "fit lib1 (gmm1 1 False) X1 (Some dz) ''kmeans'' () =
     (Inr (),
      (gmm1 1 False)\<lparr>data_dim := Some 1,
         params := Some (Some \<lparr>mu_list = Some [[NaN]], components = Some [NaN],
           Sigma_list = Some [[[NaN]]], sigma_sq_list = None, Psi_list = None,
           W_list = None\<rparr>),
         trainNll := Some NInf, isFitted := True\<rparr>,
      [], ())"
    by (simp add: fit_def start_params_def Let_def gmm1_simps e_step_dz[OF s]
        m_step_dz[OF s(1)] minus_npfloat_def)
      (simp add: ncols_X1)
  moreover have "sum_list [NaN] \<noteq> (1::npfloat)"
    by (simp add: one_npfloat_def)
  ultimately show ?thesis
    by (simp add: e_step_dz m_step_dz gmm1_simps)
qed

section \<open>Scores\<close>

text \<open>
  C8. On a fitted model, \<open>score\<close> raises what \<open>score_samples\<close> raises, and when
  \<open>score_samples\<close> returns the log-likelihoods \<open>v\<close> of the rows, \<open>score\<close> returns their
  arithmetic mean, the sum of \<open>v\<close> divided by its length; one of the two is the case.
  The two calls print the same (nothing).
\<close>

theorem score_is_mean_of_score_samples:
  assumes "isFitted self"
  shows "((\<exists>e. fst (score_samples L self X) = Inl e \<and> fst (score L self X) = Inl e) \<or>
          (\<exists>v. fst (score_samples L self X) = Inr (Some v) \<and>
               fst (score L self X) = Inr (Some (sum_list v / Fin (real (length v)))))) \<and>
         snd (score L self X) = snd (score_samples L self X)"
  using assms
  by (auto simp: score_def score_samples_def mean_vec_def split: sum.splits prod.splits)

lemma score_samples_fitted1:
  "score_samples lib1 fitted1 X1 = (Inr (Some [Fin (ln c1), Fin (ln c1)]), [])"
  by (simp add: score_samples_def fitted1_def getattr_def bindE_def e_step_X1 gmm1_simps)

theorem score_is_mean_witness:
  "isFitted fitted1 \<and>
   fst (score_samples lib1 fitted1 X1) = Inr (Some [Fin (ln c1), Fin (ln c1)]) \<and>
   fst (score lib1 fitted1 X1) = Inr (Some (Fin ((ln c1 + ln c1) / 2)))"
proof -
  have f: "isFitted fitted1" by (simp add: fitted1_def)
  from score_is_mean_of_score_samples[OF f, of lib1 X1] show ?thesis
    using f by (simp add: score_samples_fitted1)
qed

end
